theory Spec2Isabelle
  imports Main "HOL-Library.Word" "HOL-Library.Sublist"
begin

section \<open>Common vocabulary\<close>

text \<open>
  Go's \<open>error\<close> values. \<open>Errorf\<close> is an error built by \<open>fmt.Errorf\<close> (or by a library)
  from a message; \<open>ErrNotExist\<close> answers true to \<open>os.IsNotExist\<close>, \<open>ErrNotFound\<close> to the
  Kubernetes \<open>errors.IsNotFound\<close>; \<open>ErrWaitTimeout\<close> is \<open>wait.ErrWaitTimeout\<close> and
  \<open>ErrKeyNotFound\<close> the key-value store's answer for an absent key. A Go \<open>error\<close> result is an
  \<open>error option\<close>, \<open>None\<close> being \<open>nil\<close>.
\<close>

datatype error =
    Errorf string
  | ErrNotExist string
  | ErrNotFound string
  | ErrWaitTimeout
  | ErrKeyNotFound

fun os_IsNotExist :: "error \<Rightarrow> bool" where
  "os_IsNotExist (ErrNotExist _) = True"
| "os_IsNotExist _ = False"

fun errors2_IsNotFound :: "error \<Rightarrow> bool" where
  "errors2_IsNotFound (ErrNotFound _) = True"
| "errors2_IsNotFound _ = False"

text \<open>
  What a call does: it returns a value, it panics, or (in a run with no other goroutine
  to wake it) it never returns.
\<close>

datatype 'a outcome = Returns 'a | Panics string | Blocks

definition nil_dereference :: string where
  "nil_dereference = ''runtime error: invalid memory address or nil pointer dereference''"

text \<open>Go's \<open>int\<close> and \<open>int64\<close> on a 64-bit platform; \<open>time.Duration\<close> is an \<open>int64\<close> of nanoseconds.\<close>

type_synonym go_int = "64 word"
type_synonym int64 = "64 word"
type_synonym Duration = "64 word"

definition Second :: Duration where
  "Second = 1000000000"


section \<open>\<^verbatim>\<open>cluster.go\<close>: the pod mirror\<close>

subsection \<open>Pods\<close>

text \<open>
  A \<open>v1.Pod\<close> is \<open>TypeMeta\<close>, \<open>ObjectMeta\<close>, \<open>Spec\<close> and \<open>Status\<close>. The code reads the name and
  the namespace of the metadata; the other metadata, the spec and the status are carried
  whole, so they stay type parameters.
\<close>

record 'm ObjectMeta =
  Name :: string
  Namespace :: string
  OtherMeta :: 'm

record ('m, 'sp, 'st) Pod =
  TypeMeta :: "string \<times> string"
  ObjectMeta :: "'m ObjectMeta"
  Spec :: 'sp
  Status :: 'st

text \<open>
  The two read caches, keyed by (namespace, name): the up-cluster cache behind
  \<open>ResourceManager.GetPod\<close> and the down-cluster pod lister. Both answer an absent key with
  a not-found error.
\<close>

type_synonym ('m, 'sp, 'st) PodCache = "string \<times> string \<rightharpoonup> ('m, 'sp, 'st) Pod"

definition ResourceManager_GetPod ::
  "('m, 'sp, 'st) PodCache \<Rightarrow> string \<Rightarrow> string \<Rightarrow> error + ('m, 'sp, 'st) Pod" where
  "ResourceManager_GetPod up namespace name =
     (case up (namespace, name) of
        None \<Rightarrow> Inl (ErrNotFound name)
      | Some pod \<Rightarrow> Inr pod)"

definition downPodLister_Get ::
  "('m, 'sp, 'st) PodCache \<Rightarrow> string \<Rightarrow> string \<Rightarrow> error + ('m, 'sp, 'st) Pod" where
  "downPodLister_Get down namespace name =
     (case down (namespace, name) of
        None \<Rightarrow> Inl (ErrNotFound name)
      | Some pod \<Rightarrow> Inr pod)"

subsection \<open>GetPod\<close>

text \<open>
  \<open>Provider.GetPod\<close> (cluster.go, lines 139-156). \<open>pod\<close> is the pointer the up-cluster cache
  hands out, so the assignment \<open>pod.Status = down.Status\<close> also rewrites the cached object:
  the function returns the cache as the call leaves it.
\<close>

definition GetPod ::
  "('m, 'sp, 'st) PodCache \<Rightarrow> ('m, 'sp, 'st) PodCache \<Rightarrow> string \<Rightarrow> string \<Rightarrow>
     (error + ('m, 'sp, 'st) Pod) \<times> ('m, 'sp, 'st) PodCache" where
  "GetPod up down namespace name =
     (case ResourceManager_GetPod up namespace name of
        Inl err \<Rightarrow> (Inl err, up)
      | Inr pod \<Rightarrow>
          (case downPodLister_Get down namespace name of
             Inl err \<Rightarrow> (Inl err, up)
           | Inr down_pod \<Rightarrow>
               (let pod' = pod\<lparr>Status := Status down_pod\<rparr>
                in (Inr pod', up((namespace, name) \<mapsto> pod')))))"

subsection \<open>UpdatePod\<close>

text \<open>
  The trace span of a call: what was logged through \<open>span.Logger()\<close> and the status set
  by \<open>span.SetStatus\<close>. The log texts are left out; an entry keeps the level and the error.
\<close>

datatype log_entry = LogError "error option" | LogWarn "error option" | LogDebug | LogInfo

record Span =
  logged :: "log_entry list"
  span_status :: "error option"

text \<open>
  The requests the provider sends out, in the order it sends them: the dependency
  synchroniser's copies, the hand-over to the process manager, and the creates and
  updates of the down cluster's pod API.
\<close>

datatype 'p request =
    SyncSecret string string
  | SyncConfigMap string string
  | ProcessCreate 'p
  | DownCreate 'p
  | DownUpdate 'p

text \<open>
  What is outside cluster.go: \<open>trimPod\<close>, \<open>getSecrets\<close>, \<open>getConfigMaps\<close>, \<open>syncSecret\<close> and
  \<open>syncConfigMap\<close> are helpers of the package that the two source files do not hold, and
  \<open>down_Create\<close> and \<open>down_Update\<close> are the down cluster's answers. They are parameters. An
  answer may depend on everything requested so far, which is how a dependency can fail
  at one moment and succeed at a later one. \<open>getSecrets\<close> and \<open>getConfigMaps\<close> give the
  dependency names in the order the \<open>range\<close> loop visits them.
\<close>

record ('m, 'sp, 'st) ClusterEnv =
  NodeName :: string
  trimPod :: "('m, 'sp, 'st) Pod \<Rightarrow> string \<Rightarrow> ('m, 'sp, 'st) Pod"
  getSecrets :: "('m, 'sp, 'st) Pod \<Rightarrow> string list"
  getConfigMaps :: "('m, 'sp, 'st) Pod \<Rightarrow> string list"
  syncSecret :: "('m, 'sp, 'st) Pod request list \<Rightarrow> string \<Rightarrow> string \<Rightarrow> error option"
  syncConfigMap :: "('m, 'sp, 'st) Pod request list \<Rightarrow> string \<Rightarrow> string \<Rightarrow> error option"
  down_Create :: "('m, 'sp, 'st) Pod request list \<Rightarrow> ('m, 'sp, 'st) Pod \<Rightarrow> error option"
  down_Update :: "('m, 'sp, 'st) Pod request list \<Rightarrow> ('m, 'sp, 'st) Pod \<Rightarrow> error option"

text \<open>
  \<open>Provider.UpdatePod\<close> (cluster.go, lines 108-121): the returned triple is the function's
  result, the span and the requests sent.
\<close>

definition UpdatePod ::
  "('m, 'sp, 'st) ClusterEnv \<Rightarrow> Span \<Rightarrow> ('m, 'sp, 'st) Pod request list \<Rightarrow> ('m, 'sp, 'st) Pod \<Rightarrow>
     error option \<times> Span \<times> ('m, 'sp, 'st) Pod request list" where
  "UpdatePod env span reqs pod =
     (let pod' = trimPod env pod (NodeName env);
          err = down_Update env reqs pod';
          reqs' = reqs @ [DownUpdate pod']
      in (case err of
            Some e \<Rightarrow>
              (None, span\<lparr>logged := logged span @ [LogError (Some e)], span_status := Some e\<rparr>, reqs')
          | None \<Rightarrow> (None, span, reqs')))"

subsection \<open>CreatePod\<close>

text \<open>
  The condition that \<open>CreatePod\<close> hands to \<open>wait.PollImmediateUntil\<close> (lines 78-92): the
  secrets in turn, then the config maps; the first error ends it with \<open>(false, err)\<close>, and
  when none fails it answers \<open>(true, nil)\<close>. It never answers \<open>(false, nil)\<close>.
\<close>

fun syncSecrets ::
  "('m, 'sp, 'st) ClusterEnv \<Rightarrow> string \<Rightarrow> string list \<Rightarrow> ('m, 'sp, 'st) Pod request list \<Rightarrow>
     error option \<times> ('m, 'sp, 'st) Pod request list" where
  "syncSecrets env namespace [] reqs = (None, reqs)"
| "syncSecrets env namespace (s # ss) reqs =
     (case syncSecret env reqs s namespace of
        Some err \<Rightarrow> (Some err, reqs @ [SyncSecret s namespace])
      | None \<Rightarrow> syncSecrets env namespace ss (reqs @ [SyncSecret s namespace]))"

fun syncConfigMaps ::
  "('m, 'sp, 'st) ClusterEnv \<Rightarrow> string \<Rightarrow> string list \<Rightarrow> ('m, 'sp, 'st) Pod request list \<Rightarrow>
     error option \<times> ('m, 'sp, 'st) Pod request list" where
  "syncConfigMaps env namespace [] reqs = (None, reqs)"
| "syncConfigMaps env namespace (s # ss) reqs =
     (case syncConfigMap env reqs s namespace of
        Some err \<Rightarrow> (Some err, reqs @ [SyncConfigMap s namespace])
      | None \<Rightarrow> syncConfigMaps env namespace ss (reqs @ [SyncConfigMap s namespace]))"

definition syncCondition ::
  "('m, 'sp, 'st) ClusterEnv \<Rightarrow> string list \<Rightarrow> string list \<Rightarrow> string \<Rightarrow>
     ('m, 'sp, 'st) Pod request list \<Rightarrow> (bool \<times> error option) \<times> ('m, 'sp, 'st) Pod request list" where
  "syncCondition env secrets configMaps namespace reqs =
     (case syncSecrets env namespace secrets reqs of
        (Some err, reqs1) \<Rightarrow> ((False, Some err), reqs1)
      | (None, reqs1) \<Rightarrow>
          (case syncConfigMaps env namespace configMaps reqs1 of
             (Some err, reqs2) \<Rightarrow> ((False, Some err), reqs2)
           | (None, reqs2) \<Rightarrow> ((True, None), reqs2)))"

text \<open>
  \<open>wait.PollUntil\<close> and \<open>wait.PollImmediateUntil\<close> of the Kubernetes client library, over a
  condition that changes the state \<open>'s\<close>. \<open>ticks\<close> is the number of timer ticks that fire
  before the stop channel closes (here: before the ten-second context expires). The
  condition's error ends the poll with that error, \<open>done\<close> ends it with \<open>nil\<close>, and the
  stop channel ends it with \<open>ErrWaitTimeout\<close>. \<open>PollImmediateUntil\<close> evaluates the condition
  once before it looks at the stop channel.
\<close>

fun PollUntil :: "('s \<Rightarrow> (bool \<times> error option) \<times> 's) \<Rightarrow> nat \<Rightarrow> 's \<Rightarrow> error option \<times> 's" where
  "PollUntil condition 0 s = (Some ErrWaitTimeout, s)"
| "PollUntil condition (Suc ticks) s =
     (case condition s of
        ((_, Some err), s') \<Rightarrow> (Some err, s')
      | ((True, None), s') \<Rightarrow> (None, s')
      | ((False, None), s') \<Rightarrow> PollUntil condition ticks s')"

definition PollImmediateUntil ::
  "('s \<Rightarrow> (bool \<times> error option) \<times> 's) \<Rightarrow> nat \<Rightarrow> 's \<Rightarrow> error option \<times> 's" where
  "PollImmediateUntil condition ticks s =
     (case condition s of
        ((_, Some err), s') \<Rightarrow> (Some err, s')
      | ((True, None), s') \<Rightarrow> (None, s')
      | ((False, None), s') \<Rightarrow>
          (if ticks = 0 then (Some ErrWaitTimeout, s') else PollUntil condition ticks s'))"

text \<open>
  \<open>Provider.CreatePod\<close> (cluster.go, lines 67-106). After the poll has succeeded the pod
  goes to the process manager and then to the down cluster's \<open>Create\<close>, whose error is
  the function's result.
\<close>

definition CreatePod ::
  "('m, 'sp, 'st) ClusterEnv \<Rightarrow> nat \<Rightarrow> ('m, 'sp, 'st) Pod request list \<Rightarrow> ('m, 'sp, 'st) Pod \<Rightarrow>
     error option \<times> ('m, 'sp, 'st) Pod request list" where
  "CreatePod env ticks reqs pod =
     (let namespace = Namespace (ObjectMeta pod);
          secrets = getSecrets env pod;
          configMaps = getConfigMaps env pod
      in (case PollImmediateUntil (syncCondition env secrets configMaps namespace) ticks reqs of
            (Some err2, reqs1) \<Rightarrow> (Some err2, reqs1)
          | (None, reqs1) \<Rightarrow>
              (let reqs2 = reqs1 @ [ProcessCreate pod];
                   err = down_Create env reqs2 pod
               in (err, reqs2 @ [DownCreate pod]))))"

subsection \<open>GetContainerLogs\<close>

text \<open>
  \<open>time.Time\<close> by the two numbers \<open>IsZero\<close> looks at, \<open>api.ContainerLogOpts\<close> (the caller's
  options; its fields carry the prefix \<open>opts\<close> here, since \<open>v1.PodLogOptions\<close> has fields of
  the same names) and \<open>v1.PodLogOptions\<close>, whose pointer fields are options: \<open>None\<close> is the
  nil pointer, \<open>Some v\<close> a pointer to a cell that holds \<open>v\<close>.
\<close>

record Time =
  sec :: int
  nsec :: int

definition IsZero :: "Time \<Rightarrow> bool" where
  "IsZero t \<longleftrightarrow> sec t = 0 \<and> nsec t = 0"

record ContainerLogOpts =
  opts_Tail :: go_int
  opts_LimitBytes :: go_int
  opts_Timestamps :: bool
  opts_Follow :: bool
  opts_Previous :: bool
  opts_SinceSeconds :: go_int
  opts_SinceTime :: Time

record PodLogOptions =
  Container :: string
  Follow :: bool
  Previous :: bool
  SinceSeconds :: "int64 option"
  SinceTime :: "Time option"
  Timestamps :: bool
  TailLines :: "int64 option"
  LimitBytes :: "int64 option"

text \<open>
  The store \<open>*p = v\<close> through a pointer field: through the nil pointer it panics, through
  any other it overwrites the cell.
\<close>

definition store_through :: "'a option \<Rightarrow> 'a \<Rightarrow> 'a option outcome" where
  "store_through p v = (case p of None \<Rightarrow> Panics nil_dereference | Some _ \<Rightarrow> Returns (Some v))"

text \<open>
  \<open>Provider.GetContainerLogs\<close> (cluster.go, lines 196-235). \<open>logs_Stream\<close> is the down
  cluster's answer to \<open>GetLogs(podName, options).Stream(ctx)\<close>: a stream or an error. The
  function hands both through as they are.
\<close>

definition GetContainerLogs ::
  "(string \<Rightarrow> string \<Rightarrow> PodLogOptions \<Rightarrow> error + 'stream) \<Rightarrow> string \<Rightarrow> string \<Rightarrow> string \<Rightarrow>
     ContainerLogOpts \<Rightarrow> (error + 'stream) outcome" where
  "GetContainerLogs logs_Stream namespace podName containerName opts =
     (let tailLine = opts_Tail opts;
          limitBytes = opts_LimitBytes opts;
          sinceSeconds = opts_SinceSeconds opts;
          options0 = \<lparr>Container = containerName, Follow = opts_Follow opts, Previous = False,
                      SinceSeconds = None, SinceTime = None, Timestamps = opts_Timestamps opts,
                      TailLines = None, LimitBytes = None\<rparr>;
          options1 = (if tailLine \<noteq> 0 then options0\<lparr>TailLines := Some tailLine\<rparr> else options0);
          options2 = (if limitBytes \<noteq> 0 then options1\<lparr>LimitBytes := Some limitBytes\<rparr> else options1)
      in (case (if \<not> IsZero (opts_SinceTime opts)
                then store_through (SinceTime options2) (opts_SinceTime opts)
                else Returns (SinceTime options2)) of
            Panics msg \<Rightarrow> Panics msg
          | Blocks \<Rightarrow> Blocks
          | Returns sinceTime \<Rightarrow>
              (let options3 = options2\<lparr>SinceTime := sinceTime\<rparr>
               in (case (if sinceSeconds \<noteq> 0
                         then store_through (SinceSeconds options3) sinceSeconds
                         else Returns (SinceSeconds options3)) of
                     Panics msg \<Rightarrow> Panics msg
                   | Blocks \<Rightarrow> Blocks
                   | Returns since \<Rightarrow>
                       (let options4 = options3\<lparr>SinceSeconds := since\<rparr>;
                            options5 = (if opts_Previous opts
                                        then options4\<lparr>Previous := opts_Previous opts\<rparr> else options4);
                            options6 = (if opts_Follow opts
                                        then options5\<lparr>Follow := opts_Follow opts\<rparr> else options5)
                        in Returns (logs_Stream namespace podName options6))))))"

section \<open>\<^verbatim>\<open>image_manager.go\<close>: the image cache and puller\<close>

subsection \<open>Library functions on strings and paths\<close>

text \<open>
  \<open>strings.NewReplacer(old1, "", old2, "", ...).Replace\<close>, for the replacer that
  \<open>imageDestDir\<close> builds: every replacement is the empty string. The text is read from
  left to right; at each position the first \<open>old\<close> of the argument list that matches there
  is cut out, and where none matches the character is kept. An empty \<open>old\<close> replaces
  nothing by nothing.
\<close>

function Replacer_Replace :: "string list \<Rightarrow> string \<Rightarrow> string" where
  "Replacer_Replace olds s =
     (if s = [] then []
      else (case find (\<lambda>old. old \<noteq> [] \<and> prefix old s) olds of
              Some old \<Rightarrow> Replacer_Replace olds (drop (length old) s)
            | None \<Rightarrow> hd s # Replacer_Replace olds (tl s)))"
  by pat_completeness auto
termination
  by (relation "measure (\<lambda>(olds, s). length s)") (auto simp: find_Some_iff)

declare Replacer_Replace.simps [simp del]

text \<open>\<open>strings.Join(elems, "/")\<close> and the split of a path at its separators.\<close>

fun joinSlash :: "string list \<Rightarrow> string" where
  "joinSlash [] = []"
| "joinSlash [e] = e"
| "joinSlash (e # es) = e @ ''/'' @ joinSlash es"

fun splitSlash :: "string \<Rightarrow> string list" where
  "splitSlash [] = [[]]"
| "splitSlash (c # cs) =
     (if c = CHR ''/'' then [] # splitSlash cs
      else (case splitSlash cs of
              [] \<Rightarrow> [[c]]
            | e # es \<Rightarrow> (c # e) # es))"

text \<open>
  \<open>filepath.Clean\<close> on a Unix path, element by element: empty elements and \<open>.\<close> go, \<open>..\<close>
  takes back the element before it (at the root it goes, at the start of a relative path
  it stays), and the empty result is \<open>.\<close>.
\<close>

definition cleanStep :: "bool \<Rightarrow> string list \<Rightarrow> string \<Rightarrow> string list" where
  "cleanStep rooted out e =
     (if e = [] \<or> e = ''.'' then out
      else if e = ''..'' then
        (if out \<noteq> [] \<and> last out \<noteq> ''..'' then butlast out
         else if rooted then out
         else out @ [e])
      else out @ [e])"

definition filepath_Clean :: "string \<Rightarrow> string" where
  "filepath_Clean path =
     (if path = [] then ''.''
      else (let rooted = (hd path = CHR ''/'');
                out = joinSlash (foldl (cleanStep rooted) [] (splitSlash path))
            in if rooted then ''/'' @ out
               else if out = [] then ''.''
               else out))"

text \<open>
  \<open>filepath.Join\<close>: the elements from the first non-empty one on, joined and cleaned; the
  empty string when all are empty. \<open>filepath.Dir\<close>: the path up to its last separator,
  cleaned.
\<close>

definition filepath_Join :: "string list \<Rightarrow> string" where
  "filepath_Join elem =
     (case dropWhile (\<lambda>e. e = []) elem of
        [] \<Rightarrow> []
      | es \<Rightarrow> filepath_Clean (joinSlash es))"

definition filepath_Dir :: "string \<Rightarrow> string" where
  "filepath_Dir path = filepath_Clean (rev (dropWhile (\<lambda>c. c \<noteq> CHR ''/'') (rev path)))"

text \<open>\<open>strconv.Itoa\<close> on a number that is not negative.\<close>

fun strconv_Itoa :: "nat \<Rightarrow> string" where
  "strconv_Itoa n =
     (if n < 10 then [char_of (48 + n)]
      else strconv_Itoa (n div 10) @ [char_of (48 + n mod 10)])"

declare strconv_Itoa.simps [simp del]

subsection \<open>The data of the image manager\<close>

definition pullLogPrefix :: string where
  "pullLogPrefix = ''native-kubelet-pullImage-''"

definition manifestFileName :: string where
  "manifestFileName = ''manifest.json''"

text \<open>
  \<open>ImagePulling\<close>: the session of a pull in flight. The channel \<open>ch\<close> is a number (its
  identity); \<open>f\<close> is the log file once opened. The fields carry the prefix \<open>pull\<close>.
\<close>

record ImagePulling =
  pull_imageName :: string
  pull_ch :: nat
  pull_f :: "string option"

definition NewImagePulling :: "string \<Rightarrow> nat \<Rightarrow> ImagePulling" where
  "NewImagePulling imageName fresh_ch =
     \<lparr>pull_imageName = imageName, pull_ch = fresh_ch, pull_f = None\<rparr>"

text \<open>
  \<open>ImageManager\<close>: \<open>pulling\<close> is the \<open>sync.Map\<close> of sessions, \<open>imageDb\<close> the key-value store,
  \<open>max'\<close> the field \<open>max\<close>. The map holds pointers to the sessions; the only field of a
  stored session that another goroutine reads is the channel, which never changes, so
  the map is modelled as holding the sessions themselves.
\<close>

record ImageManager =
  imagePath :: string
  pulling :: "string \<rightharpoonup> ImagePulling"
  imageDb :: "string \<rightharpoonup> string"
  max' :: go_int

datatype OptionalBool = OptionalBoolUndefined | OptionalBoolTrue | OptionalBoolFalse

record PullImageOpts =
  SrcImage :: string
  DockerAuthConfig :: "(string \<times> string) option"
  DockerBearerRegistryToken :: string
  DockerRegistryUserAgent :: string
  DockerInsecureSkipTLSVerify :: OptionalBool
  Timeout :: Duration
  RetryCount :: go_int

text \<open>An image reference as \<open>ParseImageName\<close> or \<open>ParseReference\<close> returns it.\<close>

datatype ImageReference = ImageReference string

text \<open>
  The image manifest (\<open>v1.Manifest\<close>) with its layer descriptors. A digest is a string
  \<open>algorithm:encoded\<close>; \<open>Digest.Encoded\<close> is the part after the first colon and panics when
  there is no colon (\<open>None\<close> here).
\<close>

record Descriptor =
  MediaType :: string
  Digest :: string
  Size :: int64

record Manifest =
  SchemaVersion :: int
  Config :: Descriptor
  Layers :: "Descriptor list"

definition MediaTypeDockerSchema2LayerGzip :: string where
  "MediaTypeDockerSchema2LayerGzip = ''application/vnd.docker.image.rootfs.diff.tar.gzip''"

definition Digest_Encoded :: "string \<Rightarrow> string option" where
  "Digest_Encoded d =
     (if CHR '':'' \<in> set d then Some (tl (dropWhile (\<lambda>c. c \<noteq> CHR '':'') d)) else None)"

text \<open>
  The calls that change something outside the process, in the order they are made: on
  the file system, and the image copies (\<open>cc.Image\<close> with the deadline of its context, the
  destination and the source).
\<close>

datatype syscall =
    OsMkdirAll string
  | OsRemove string
  | OsOpenFile string
  | FileClose string
  | CcImage "Duration option" ImageReference ImageReference
  | UnTarCall string string

record Sys =
  closed_chans :: "nat set"
  next_chan :: nat
  calls :: "syscall list"

text \<open>
  The answers of everything outside \<^verbatim>\<open>image_manager.go\<close>, for the length of one call: the
  libraries (\<open>alltransports\<close>, \<open>transports\<close>, \<open>filenamify\<close>, \<open>signature\<close>, \<open>directory\<close>, \<open>cc\<close>,
  \<open>json\<close>), the operating system, the clock and the random source, the store's \<open>Put\<close>, and
  the package's \<open>dockerImageName\<close> and \<open>UnTar\<close>, which the two source files do not hold.
  \<open>os_Stat\<close> gives only the error of \<open>os.Stat\<close>, the one part of its result that is used.
\<close>

record ImageEnv =
  alltransports_ParseImageName :: "string \<Rightarrow> error + ImageReference"
  transports_ListNames :: "string list"
  filenamify_Filenamify :: "string \<Rightarrow> string \<Rightarrow> error + string"
  os_Stat :: "string \<Rightarrow> error option"
  os_MkdirAll :: "string \<Rightarrow> error option"
  os_Remove :: "string \<Rightarrow> error option"
  os_TempDir :: string
  os_OpenFile :: "string \<Rightarrow> error option"
  signature_DefaultPolicy :: "error option"
  signature_NewPolicyContext :: "error option"
  time_Nanosecond :: nat
  rand_Intn :: "nat \<Rightarrow> nat"
  cc_Image :: "Duration option \<Rightarrow> ImageReference \<Rightarrow> ImageReference \<Rightarrow> error option"
  db_Put :: "string \<Rightarrow> string \<Rightarrow> error option"
  directory_ParseReference :: "string \<Rightarrow> error + ImageReference"
  dockerImageName :: "string \<Rightarrow> string"
  ioutil_ReadFile :: "string \<Rightarrow> error + string"
  json_Unmarshal :: "string \<Rightarrow> error + Manifest"
  UnTar :: "string \<Rightarrow> string \<Rightarrow> error option"

text \<open>The name of the \<open>docker-archive\<close> transport, \<open>archive.Transport.Name()\<close>.\<close>

definition archive_Transport_Name :: string where
  "archive_Transport_Name = ''docker-archive''"

subsection \<open>Helpers of PullImage\<close>

text \<open>\<open>deleteExistImage\<close> (lines 171-179): a path that is not there is no error.\<close>

definition deleteExistImage :: "ImageEnv \<Rightarrow> string \<Rightarrow> Sys \<Rightarrow> error option \<times> Sys" where
  "deleteExistImage env dir sys =
     (let sys' = sys\<lparr>calls := calls sys @ [OsRemove dir]\<rparr>
      in (case os_Remove env dir of
            Some err \<Rightarrow> (if os_IsNotExist err then (None, sys') else (Some err, sys'))
          | None \<Rightarrow> (None, sys')))"

text \<open>\<open>createDestDir\<close> (lines 181-193).\<close>

definition createDestDir :: "ImageEnv \<Rightarrow> string \<Rightarrow> Sys \<Rightarrow> error option \<times> Sys" where
  "createDestDir env dir sys =
     (case os_Stat env dir of
        None \<Rightarrow> (None, sys)
      | Some err \<Rightarrow>
          (if os_IsNotExist err then
             (let sys' = sys\<lparr>calls := calls sys @ [OsMkdirAll dir]\<rparr>
              in (case os_MkdirAll env dir of
                    Some err' \<Rightarrow> (Some err', sys')
                  | None \<Rightarrow> (None, sys')))
           else (Some err, sys)))"

text \<open>
  \<open>imageDestDir\<close> (lines 306-322): the transport names and \<open>//\<close> are cut out of the image
  name, \<open>Filenamify\<close> with the replacement \<open>-\<close> makes a file name of the rest, and the
  results are the destination reference \<open>docker-archive:<file>\<close> and the file path.
\<close>

definition imageDestDir :: "ImageEnv \<Rightarrow> string \<Rightarrow> string \<Rightarrow> error + string \<times> string" where
  "imageDestDir env path imageName =
     (let names = transports_ListNames env @ [''//''];
          replace = Replacer_Replace names imageName
      in (case filenamify_Filenamify env replace ''-'' of
            Inl err \<Rightarrow> Inl err
          | Inr s \<Rightarrow>
              (let filep = filepath_Join [path, s] @ ''.tar.gz''
               in Inr (archive_Transport_Name @ '':'' @ filep, filep))))"

text \<open>Lines 116-118: the timeout of the copy when the caller gave none.\<close>

definition effectiveTimeout :: "ImageManager \<Rightarrow> PullImageOpts \<Rightarrow> Duration" where
  "effectiveTimeout m opts = (if Timeout opts = 0 then max' m * Second else Timeout opts)"

text \<open>The store's \<open>Has\<close>, and \<open>Load\<close>, \<open>LoadOrStore\<close> and \<open>Delete\<close> of the \<open>sync.Map\<close>.\<close>

definition imageDb_Has :: "ImageManager \<Rightarrow> string \<Rightarrow> bool" where
  "imageDb_Has m name \<longleftrightarrow> imageDb m name \<noteq> None"

definition pulling_Load :: "ImageManager \<Rightarrow> string \<Rightarrow> ImagePulling option" where
  "pulling_Load m name = pulling m name"

definition pulling_LoadOrStore :: "ImageManager \<Rightarrow> string \<Rightarrow> ImagePulling \<Rightarrow> ImageManager" where
  "pulling_LoadOrStore m name p =
     (case pulling m name of
        Some _ \<Rightarrow> m
      | None \<Rightarrow> m\<lparr>pulling := (pulling m)(name \<mapsto> p)\<rparr>)"

definition pulling_Delete :: "ImageManager \<Rightarrow> string \<Rightarrow> ImageManager" where
  "pulling_Delete m name = m\<lparr>pulling := (pulling m)(name := None)\<rparr>"

definition close_chan :: "nat \<Rightarrow> Sys \<Rightarrow> Sys" where
  "close_chan c sys = sys\<lparr>closed_chans := insert c (closed_chans sys)\<rparr>"

subsection \<open>PullImage\<close>

text \<open>
  What the first part of \<open>PullImage\<close> (lines 77-120) leaves in local variables for the
  rest.
\<close>

record PullLocals =
  loc_name :: string
  loc_srcRef :: ImageReference
  loc_dest :: string
  loc_imageDir :: string
  loc_destRef :: ImageReference
  loc_timeout :: Duration

text \<open>
  Lines 77-120: the references, the destination and its directory, the signature policy
  and the timeout. Every error ends the call. Nothing here reads or writes the store or
  the session map.
\<close>

definition PullImage_setup ::
  "ImageEnv \<Rightarrow> ImageManager \<Rightarrow> Sys \<Rightarrow> PullImageOpts \<Rightarrow> (error + PullLocals) \<times> Sys" where
  "PullImage_setup env m sys opts =
     (let name = SrcImage opts
      in (case alltransports_ParseImageName env name of
            Inl err \<Rightarrow> (Inl err, sys)
          | Inr srcRef \<Rightarrow>
      (case imageDestDir env (imagePath m) (SrcImage opts) of
            Inl err \<Rightarrow> (Inl err, sys)
          | Inr (dest, imageDir) \<Rightarrow>
      (case createDestDir env (filepath_Dir imageDir) sys of
            (Some err, sys1) \<Rightarrow> (Inl err, sys1)
          | (None, sys1) \<Rightarrow>
      (case alltransports_ParseImageName env dest of
            Inl err \<Rightarrow> (Inl err, sys1)
          | Inr destRef \<Rightarrow>
      (case signature_DefaultPolicy env of
            Some err \<Rightarrow> (Inl err, sys1)
          | None \<Rightarrow>
      (case signature_NewPolicyContext env of
            Some err \<Rightarrow> (Inl err, sys1)
          | None \<Rightarrow>
              (Inr \<lparr>loc_name = name, loc_srcRef = srcRef, loc_dest = dest,
                    loc_imageDir = imageDir, loc_destRef = destRef,
                    loc_timeout = effectiveTimeout m opts\<rparr>, sys1))))))))"

text \<open>
  The deferred calls of the pulling goroutine, in the order they run: \<open>pulling.f.Close()\<close>
  when the log file was opened, \<open>m.pulling.Delete(name)\<close>, \<open>close(pulling.ch)\<close>. The
  channel was made by this call and is closed nowhere else.
\<close>

definition PullImage_deferred ::
  "string \<Rightarrow> ImagePulling \<Rightarrow> ImageManager \<times> Sys \<Rightarrow> ImageManager \<times> Sys" where
  "PullImage_deferred name p = (\<lambda>(m, sys).
     (let sys1 = (case pull_f p of
                    Some file \<Rightarrow> sys\<lparr>calls := calls sys @ [FileClose file]\<rparr>
                  | None \<Rightarrow> sys)
      in (pulling_Delete m name, close_chan (pull_ch p) sys1)))"

text \<open>
  Lines 146-168, with the deferred calls at each way out. \<open>rand.Intn\<close> panics on an
  argument that is not positive. The result of \<open>deleteExistImage\<close> is assigned to \<open>err\<close> and
  the next statement assigns \<open>err\<close> again. A \<open>Put\<close> that fails is taken to have stored
  nothing.
\<close>

definition PullImage_pull ::
  "ImageEnv \<Rightarrow> PullLocals \<Rightarrow> ImagePulling \<Rightarrow> ImageManager \<times> Sys \<Rightarrow>
     error option outcome \<times> ImageManager \<times> Sys" where
  "PullImage_pull env loc p = (\<lambda>(m, sys).
     (let name = loc_name loc
      in if time_Nanosecond env = 0
         then (Panics ''invalid argument to Intn'', PullImage_deferred name p (m, sys))
         else
           (let logName = strconv_Itoa (rand_Intn env (time_Nanosecond env));
                (err0, sys1) = deleteExistImage env (loc_imageDir loc) sys;
                logPath = filepath_Join [os_TempDir env, pullLogPrefix @ ''-'' @ logName];
                sys2 = sys1\<lparr>calls := calls sys1 @ [OsOpenFile logPath]\<rparr>
            in (case os_OpenFile env logPath of
                  Some err \<Rightarrow> (Returns (Some err), PullImage_deferred name p (m, sys2))
                | None \<Rightarrow>
                    (let p' = p\<lparr>pull_f := Some logPath\<rparr>;
                         sys3 = sys2\<lparr>calls := calls sys2 @
                                   [CcImage (Some (loc_timeout loc)) (loc_destRef loc) (loc_srcRef loc)]\<rparr>
                     in (case cc_Image env (Some (loc_timeout loc)) (loc_destRef loc) (loc_srcRef loc) of
                           Some err \<Rightarrow> (Returns (Some err), PullImage_deferred name p' (m, sys3))
                         | None \<Rightarrow>
                             (case db_Put env name (loc_dest loc) of
                                Some err \<Rightarrow> (Returns (Some err), PullImage_deferred name p' (m, sys3))
                              | None \<Rightarrow>
                                  (Returns None,
                                   PullImage_deferred name p'
                                     (m\<lparr>imageDb := (imageDb m)(name \<mapsto> loc_dest loc)\<rparr>, sys3)))))))))"

text \<open>The path of the log file that the pull opens (line 150).\<close>

definition pullLogPath :: "ImageEnv \<Rightarrow> string" where
  "pullLogPath env =
     filepath_Join [os_TempDir env,
       pullLogPrefix @ ''-'' @ strconv_Itoa (rand_Intn env (time_Nanosecond env))]"

text \<open>
  Lines 142-145: the new session with a fresh channel, and \<open>LoadOrStore\<close>, whose results
  (the session that is in the map, and whether it was there before) the code does not
  look at.
\<close>

definition PullImage_store ::
  "string \<Rightarrow> ImageManager \<times> Sys \<Rightarrow> ImagePulling \<times> ImageManager \<times> Sys" where
  "PullImage_store name = (\<lambda>(m, sys).
     (let p = NewImagePulling name (next_chan sys)
      in (p, pulling_LoadOrStore m name p, sys\<lparr>next_chan := Suc (next_chan sys)\<rparr>)))"

text \<open>
  \<open>ImageManager.PullImage\<close> (lines 74-169) run by one goroutine with no other at work. At
  the label \<open>check\<close> a session of another goroutine in the map makes the call wait on that
  session's channel; with nobody to close it the call does not return.
\<close>

definition PullImage ::
  "ImageEnv \<Rightarrow> ImageManager \<times> Sys \<Rightarrow> PullImageOpts \<Rightarrow> error option outcome \<times> ImageManager \<times> Sys" where
  "PullImage env = (\<lambda>(m, sys) opts.
     (case PullImage_setup env m sys opts of
        (Inl err, sys1) \<Rightarrow> (Returns (Some err), m, sys1)
      | (Inr loc, sys1) \<Rightarrow>
          (if imageDb_Has m (loc_name loc) then (Returns None, m, sys1)
           else (case pulling_Load m (loc_name loc) of
                   Some pull \<Rightarrow> (Blocks, m, sys1)
                 | None \<Rightarrow>
                     (case PullImage_store (loc_name loc) (m, sys1) of
                        (p, m2, sys2) \<Rightarrow> PullImage_pull env loc p (m2, sys2))))))"

subsection \<open>PullImage run by several goroutines\<close>

text \<open>
  The same code as a machine that goroutines step through. A step is one access to the
  shared state with the local work before it: the lines up to the label \<open>check\<close>, the
  store's \<open>Has\<close>, the map's \<open>Load\<close>, the receive from a session's channel (which does
  not move while the channel is open), \<open>LoadOrStore\<close>, and the pull with its deferred
  calls, which is taken as a single step. Every run of the machine is therefore a run
  of the program; the program has further interleavings, inside the pull, that the
  machine does not have. Each step is made of the functions above, so a goroutine that
  runs alone does what \<open>PullImage\<close> does.
\<close>

datatype pc =
    AtStart
  | AtCheck PullLocals
  | AtLoad PullLocals
  | AtReceive PullLocals ImagePulling
  | AtStore PullLocals
  | AtPull PullLocals ImagePulling
  | Finished "error option outcome"

record Goroutine =
  g_env :: ImageEnv
  g_opts :: PullImageOpts
  g_pc :: pc

definition goroutine_step ::
  "Goroutine \<Rightarrow> ImageManager \<times> Sys \<Rightarrow> Goroutine \<times> ImageManager \<times> Sys" where
  "goroutine_step g = (\<lambda>(m, sys).
     (case g_pc g of
        AtStart \<Rightarrow>
          (case PullImage_setup (g_env g) m sys (g_opts g) of
             (Inl err, sys1) \<Rightarrow> (g\<lparr>g_pc := Finished (Returns (Some err))\<rparr>, m, sys1)
           | (Inr loc, sys1) \<Rightarrow> (g\<lparr>g_pc := AtCheck loc\<rparr>, m, sys1))
      | AtCheck loc \<Rightarrow>
          (if imageDb_Has m (loc_name loc) then (g\<lparr>g_pc := Finished (Returns None)\<rparr>, m, sys)
           else (g\<lparr>g_pc := AtLoad loc\<rparr>, m, sys))
      | AtLoad loc \<Rightarrow>
          (case pulling_Load m (loc_name loc) of
             Some pull \<Rightarrow> (g\<lparr>g_pc := AtReceive loc pull\<rparr>, m, sys)
           | None \<Rightarrow> (g\<lparr>g_pc := AtStore loc\<rparr>, m, sys))
      | AtReceive loc pull \<Rightarrow>
          (if pull_ch pull \<in> closed_chans sys then (g\<lparr>g_pc := AtCheck loc\<rparr>, m, sys)
           else (g, m, sys))
      | AtStore loc \<Rightarrow>
          (case PullImage_store (loc_name loc) (m, sys) of
             (p, m2, sys2) \<Rightarrow> (g\<lparr>g_pc := AtPull loc p\<rparr>, m2, sys2))
      | AtPull loc p \<Rightarrow>
          (case PullImage_pull (g_env g) loc p (m, sys) of
             (out, m2, sys2) \<Rightarrow> (g\<lparr>g_pc := Finished out\<rparr>, m2, sys2))
      | Finished out \<Rightarrow> (g, m, sys)))"

text \<open>
  The whole machine: the manager, the world outside, and the goroutines. A schedule names
  the goroutine that takes each step.
\<close>

record Machine =
  manager :: ImageManager
  world :: Sys
  goroutines :: "Goroutine list"

definition machine_step :: "nat \<Rightarrow> Machine \<Rightarrow> Machine" where
  "machine_step i st =
     (if i < length (goroutines st) then
        (case goroutine_step (goroutines st ! i) (manager st, world st) of
           (g', m', sys') \<Rightarrow>
             \<lparr>manager = m', world = sys', goroutines = (goroutines st)[i := g']\<rparr>)
      else st)"

fun run :: "nat list \<Rightarrow> Machine \<Rightarrow> Machine" where
  "run [] st = st"
| "run (i # schedule) st = run schedule (machine_step i st)"

fun is_CcImage :: "syscall \<Rightarrow> bool" where
  "is_CcImage (CcImage _ _ _) = True"
| "is_CcImage _ = False"

definition copies :: "Sys \<Rightarrow> nat" where
  "copies sys = length (filter is_CcImage (calls sys))"

text \<open>
  One call as its goroutine lives it, whatever the other goroutines do: \<open>ws\<close> gives, for
  each step the goroutine takes, the manager and the world as the others have left them
  by then, and \<open>call_steps\<close> gives for each step the state before it, the goroutine after
  it and the state after it. \<open>worlds_before i\<close> reads these states off a run of the
  machine, for the goroutine \<open>i\<close>.
\<close>

fun call_steps ::
  "Goroutine \<Rightarrow> (ImageManager \<times> Sys) list \<Rightarrow>
     ((ImageManager \<times> Sys) \<times> Goroutine \<times> ImageManager \<times> Sys) list" where
  "call_steps g [] = []"
| "call_steps g (w # ws) =
     (case goroutine_step g w of (g', w') \<Rightarrow> (w, g', w') # call_steps g' ws)"

fun worlds_before :: "nat \<Rightarrow> nat list \<Rightarrow> Machine \<Rightarrow> (ImageManager \<times> Sys) list" where
  "worlds_before i [] st = []"
| "worlds_before i (j # schedule) st =
     (if j = i then (manager st, world st) # worlds_before i schedule (machine_step j st)
      else worlds_before i schedule (machine_step j st))"



subsection \<open>UnzipImage\<close>

text \<open>
  Lines 283-297. \<open>getLayerFilePath\<close> is \<open>None\<close> where \<open>digest.Encoded()\<close> panics;
  \<open>digest_panic\<close> stands for the panic's message, which goes on with the quoted digest.
\<close>

definition getLayerFilePath :: "string \<Rightarrow> string \<Rightarrow> string option" where
  "getLayerFilePath imageDir digest =
     (case Digest_Encoded digest of
        None \<Rightarrow> None
      | Some encoded \<Rightarrow> Some (filepath_Join [imageDir, encoded]))"

definition containerWorkDir :: "string \<Rightarrow> string" where
  "containerWorkDir workdir = filepath_Join [workdir, ''container'']"

definition manifestDir :: "string \<Rightarrow> string" where
  "manifestDir workdir = filepath_Join [workdir, manifestFileName]"

definition getImageWorkDir :: "string \<Rightarrow> string" where
  "getImageWorkDir workdir = filepath_Join [workdir, ''image'']"

definition digest_panic :: string where
  "digest_panic = ''no ':' separator in digest''"

text \<open>
  The loop over the layers (lines 264-278), in manifest order. A gzip layer is unpacked
  with \<open>UnTar\<close>, whose error ends the loop; any other media type ends it with the error
  that \<open>fmt.Errorf\<close> builds from the image, the encoded digest and the media type.
\<close>

fun UnzipImage_layers ::
  "ImageEnv \<Rightarrow> string \<Rightarrow> string \<Rightarrow> string \<Rightarrow> Descriptor list \<Rightarrow> Sys \<Rightarrow> error option outcome \<times> Sys" where
  "UnzipImage_layers env image' imageDir workdir [] sys = (Returns None, sys)"
| "UnzipImage_layers env image' imageDir workdir (layer # layers) sys =
     (if MediaType layer = MediaTypeDockerSchema2LayerGzip then
        (case getLayerFilePath imageDir (Digest layer) of
           None \<Rightarrow> (Panics digest_panic, sys)
         | Some file \<Rightarrow>
             (let sys' = sys\<lparr>calls := calls sys @ [UnTarCall file (containerWorkDir workdir)]\<rparr>
              in (case UnTar env file (containerWorkDir workdir) of
                    Some err \<Rightarrow> (Returns (Some err), sys')
                  | None \<Rightarrow> UnzipImage_layers env image' imageDir workdir layers sys')))
      else
        (case Digest_Encoded (Digest layer) of
           None \<Rightarrow> (Panics digest_panic, sys)
         | Some encoded \<Rightarrow>
             (Returns (Some (Errorf (''unsupport image '' @ image' @ '' layer '' @ encoded @
                                       '' media type:'' @ MediaType layer))), sys)))"

text \<open>
  \<open>ImageManager.UnzipImage\<close> (lines 195-281): the image directory, the record of the
  image in the store, the copy of the archive into the image directory, the manifest,
  and the layers.
\<close>

definition UnzipImage ::
  "ImageEnv \<Rightarrow> ImageManager \<Rightarrow> Sys \<Rightarrow> string \<Rightarrow> string \<Rightarrow> error option outcome \<times> Sys" where
  "UnzipImage env m sys image' workdir =
     (let imageDir = getImageWorkDir workdir
      in (case signature_DefaultPolicy env of
            Some err \<Rightarrow> (Returns (Some err), sys)
          | None \<Rightarrow>
      (case signature_NewPolicyContext env of
            Some err \<Rightarrow> (Returns (Some err), sys)
          | None \<Rightarrow>
      (case createDestDir env imageDir sys of
            (Some err, sys1) \<Rightarrow> (Returns (Some err), sys1)
          | (None, sys1) \<Rightarrow>
      (case directory_ParseReference env imageDir of
            Inl err \<Rightarrow> (Returns (Some err), sys1)
          | Inr destRef \<Rightarrow>
      (case imageDb m (dockerImageName env image') of
            None \<Rightarrow> (Returns (Some ErrKeyNotFound), sys1)
          | Some imagePath' \<Rightarrow>
      (case alltransports_ParseImageName env imagePath' of
            Inl err \<Rightarrow> (Returns (Some err), sys1)
          | Inr srcRef \<Rightarrow>
      (let sys2 = sys1\<lparr>calls := calls sys1 @ [CcImage None destRef srcRef]\<rparr>
       in (case cc_Image env None destRef srcRef of
            Some err \<Rightarrow> (Returns (Some err), sys2)
          | None \<Rightarrow>
      (case ioutil_ReadFile env (manifestDir imageDir) of
            Inl err \<Rightarrow> (Returns (Some err), sys2)
          | Inr content \<Rightarrow>
      (case json_Unmarshal env content of
            Inl err \<Rightarrow> (Returns (Some err), sys2)
          | Inr manifest \<Rightarrow>
              UnzipImage_layers env image' imageDir workdir (Layers manifest) sys2)))))))))))"

section \<open>A concrete environment\<close>

text \<open>
  One world in which everything outside the two files answers as the libraries document
  it, used to run the functions on concrete inputs. \<open>example_ParseImageName\<close> wants
  \<open>transport:reference\<close> with a known transport. \<open>example_Filenamify\<close> turns every
  reserved character into the one-character replacement, folds runs of the replacement
  into one and takes it off both ends.
\<close>

definition example_ListNames :: "string list" where
  "example_ListNames =
     [''containers-storage'', ''dir'', ''docker'', ''docker-archive'', ''docker-daemon'',
      ''oci'', ''oci-archive'', ''ostree'', ''tarball'']"

definition example_ParseImageName :: "string \<Rightarrow> error + ImageReference" where
  "example_ParseImageName imgName =
     (if CHR '':'' \<notin> set imgName
      then Inl (Errorf (''Invalid image name '' @ imgName @ '', expected colon-separated transport:reference''))
      else if takeWhile (\<lambda>c. c \<noteq> CHR '':'') imgName \<notin> set example_ListNames
      then Inl (Errorf (''Invalid image name '' @ imgName @ '', unknown transport''))
      else Inr (ImageReference imgName))"

definition reserved_char :: "char \<Rightarrow> bool" where
  "reserved_char c \<longleftrightarrow>
     c \<in> set ''<>:/|?*'' \<or> c = char_of (34::nat) \<or> c = char_of (92::nat) \<or> (of_char c :: nat) < 32"

fun trimRepeated :: "char \<Rightarrow> string \<Rightarrow> string" where
  "trimRepeated r (a # b # cs) =
     (if a = r \<and> b = r then trimRepeated r (b # cs) else a # trimRepeated r (b # cs))"
| "trimRepeated r cs = cs"

definition stripOuter :: "char \<Rightarrow> string \<Rightarrow> string" where
  "stripOuter r s =
     (let s1 = (if s \<noteq> [] \<and> hd s = r then tl s else s)
      in if s1 \<noteq> [] \<and> last s1 = r then butlast s1 else s1)"

definition example_Filenamify :: "string \<Rightarrow> string \<Rightarrow> error + string" where
  "example_Filenamify str replacement =
     (case replacement of
        [r] \<Rightarrow>
          (let s1 = trimRepeated r (map (\<lambda>c. if reserved_char c then r else c) str)
           in Inr (if length s1 > 1 then stripOuter r s1 else s1))
      | _ \<Rightarrow> Inl (Errorf ''replacement not supported''))"

definition example_manifest :: Manifest where
  "example_manifest =
     \<lparr>SchemaVersion = 2,
      Config = \<lparr>MediaType = ''application/vnd.docker.container.image.v1+json'',
                Digest = ''sha256:c0'', Size = 10\<rparr>,
      Layers = [\<lparr>MediaType = MediaTypeDockerSchema2LayerGzip, Digest = ''sha256:a1'', Size = 100\<rparr>,
                \<lparr>MediaType = ''application/vnd.oci.image.layer.v1.tar+zstd'', Digest = ''sha256:b2'',
                  Size = 200\<rparr>,
                \<lparr>MediaType = MediaTypeDockerSchema2LayerGzip, Digest = ''sha256:c3'', Size = 300\<rparr>]\<rparr>"

definition example_env :: ImageEnv where
  "example_env =
     \<lparr>alltransports_ParseImageName = example_ParseImageName,
      transports_ListNames = example_ListNames,
      filenamify_Filenamify = example_Filenamify,
      os_Stat = (\<lambda>_. None),
      os_MkdirAll = (\<lambda>_. None),
      os_Remove = (\<lambda>_. Some (ErrNotExist ''no such file or directory'')),
      os_TempDir = ''/tmp'',
      os_OpenFile = (\<lambda>_. None),
      signature_DefaultPolicy = None,
      signature_NewPolicyContext = None,
      time_Nanosecond = 500,
      rand_Intn = (\<lambda>_. 42),
      cc_Image = (\<lambda>_ _ _. None),
      db_Put = (\<lambda>_ _. None),
      directory_ParseReference = (\<lambda>dir. Inr (ImageReference (''dir:'' @ dir))),
      dockerImageName = (\<lambda>image'. ''docker://'' @ image'),
      ioutil_ReadFile = (\<lambda>_. Inr ''{}''),
      json_Unmarshal = (\<lambda>_. Inr example_manifest),
      UnTar = (\<lambda>_ _. None)\<rparr>"

definition example_manager :: ImageManager where
  "example_manager = \<lparr>imagePath = ''/work/images'', pulling = Map.empty, imageDb = Map.empty, max' = 1\<rparr>"

definition example_sys :: Sys where
  "example_sys = \<lparr>closed_chans = {}, next_chan = 0, calls = []\<rparr>"

definition example_opts :: PullImageOpts where
  "example_opts =
     \<lparr>SrcImage = ''docker://registry/example:v1'', DockerAuthConfig = None,
      DockerBearerRegistryToken = [], DockerRegistryUserAgent = [],
      DockerInsecureSkipTLSVerify = OptionalBoolUndefined, Timeout = 0, RetryCount = 0\<rparr>"


text \<open>The manager after the example image has been pulled.\<close>

definition example_manager_pulled :: ImageManager where
  "example_manager_pulled =
     example_manager\<lparr>imageDb :=
       [''docker://registry/example:v1'' \<mapsto> ''docker-archive:/work/images/registry-example-v1.tar.gz'']\<rparr>"

text \<open>
  Two goroutines that call \<open>PullImage\<close> with the same reference, and two schedules. In
  \<open>racing_schedule\<close> they take turns, so both pass \<open>Load\<close> before either reaches
  \<open>LoadOrStore\<close>. In \<open>waiting_schedule\<close> the first has stored its session before the second
  starts. \<open>session_of\<close> is the channel of the session a goroutine is pulling under.
\<close>

definition example_goroutine :: Goroutine where
  "example_goroutine = \<lparr>g_env = example_env, g_opts = example_opts, g_pc = AtStart\<rparr>"

definition example_machine :: Machine where
  "example_machine =
     \<lparr>manager = example_manager, world = example_sys,
      goroutines = [example_goroutine, example_goroutine]\<rparr>"

definition racing_schedule :: "nat list" where
  "racing_schedule = [0, 1, 0, 1, 0, 1, 0, 1, 0, 1]"

definition waiting_schedule :: "nat list" where
  "waiting_schedule = [0, 0, 0, 0, 1, 1, 1, 0, 1, 1]"

fun session_of :: "pc \<Rightarrow> nat option" where
  "session_of (AtPull loc p) = Some (pull_ch p)"
| "session_of _ = None"




text \<open>
  A pod, its down-cluster counterpart and a cluster for concrete runs of the pod mirror.
  In this cluster the secret \<open>missing\<close> cannot be synced until a thousand requests have
  gone out.
\<close>

definition example_pod :: "(unit, string list \<times> string list, string) Pod" where
  "example_pod =
     \<lparr>TypeMeta = (''Pod'', ''v1''),
      ObjectMeta = \<lparr>Name = ''web'', Namespace = ''default'', OtherMeta = ()\<rparr>,
      Spec = ([''db-password'', ''missing''], [''app-config'']),
      Status = ''Pending''\<rparr>"

definition example_down_pod :: "(unit, string list \<times> string list, string) Pod" where
  "example_down_pod =
     \<lparr>TypeMeta = (''Pod'', ''v1''),
      ObjectMeta = \<lparr>Name = ''web'', Namespace = ''default'', OtherMeta = ()\<rparr>,
      Spec = ([], []),
      Status = ''Running''\<rparr>"

definition example_cluster :: "(unit, string list \<times> string list, string) ClusterEnv" where
  "example_cluster =
     \<lparr>NodeName = ''virtual-node'',
      trimPod = (\<lambda>pod nodeName. pod),
      getSecrets = (\<lambda>pod. fst (Spec pod)),
      getConfigMaps = (\<lambda>pod. snd (Spec pod)),
      syncSecret = (\<lambda>reqs s namespace.
                      if s = ''missing'' \<and> length reqs < 1000 then Some (ErrNotFound s) else None),
      syncConfigMap = (\<lambda>reqs s namespace. None),
      down_Create = (\<lambda>reqs pod. None),
      down_Update = (\<lambda>reqs pod. Some (Errorf ''the object has been modified''))\<rparr>"

definition example_span :: Span where
  "example_span = \<lparr>logged = [], span_status = None\<rparr>"

definition example_logopts :: ContainerLogOpts where
  "example_logopts =
     \<lparr>opts_Tail = 10, opts_LimitBytes = 0, opts_Timestamps = False, opts_Follow = False,
      opts_Previous = False, opts_SinceSeconds = 0, opts_SinceTime = \<lparr>sec = 0, nsec = 0\<rparr>\<rparr>"


text \<open>The requests of the dependency synchroniser.\<close>

fun is_Sync :: "'p request \<Rightarrow> bool" where
  "is_Sync (SyncSecret _ _) = True"
| "is_Sync (SyncConfigMap _ _) = True"
| "is_Sync _ = False"


section \<open>Properties of the pod mirror\<close>

subsection \<open>CreatePod\<close>

lemma syncSecrets_requests:
  "\<exists>new. snd (syncSecrets env namespace ss reqs) = reqs @ new \<and> (\<forall>r \<in> set new. is_Sync r)"
proof (induction ss arbitrary: reqs)
  case Nil
  then show ?case by simp
next
  case (Cons s ss)
  show ?case
  proof (cases "syncSecret env reqs s namespace")
    case None
    from Cons.IH [of "reqs @ [SyncSecret s namespace]"] obtain new where
      "snd (syncSecrets env namespace ss (reqs @ [SyncSecret s namespace])) =
         (reqs @ [SyncSecret s namespace]) @ new" and "\<forall>r \<in> set new. is_Sync r"
      by blast
    with None show ?thesis by (intro exI [of _ "SyncSecret s namespace # new"]) simp
  next
    case (Some err)
    then show ?thesis by (intro exI [of _ "[SyncSecret s namespace]"]) simp
  qed
qed

lemma syncConfigMaps_requests:
  "\<exists>new. snd (syncConfigMaps env namespace ss reqs) = reqs @ new \<and> (\<forall>r \<in> set new. is_Sync r)"
proof (induction ss arbitrary: reqs)
  case Nil
  then show ?case by simp
next
  case (Cons s ss)
  show ?case
  proof (cases "syncConfigMap env reqs s namespace")
    case None
    from Cons.IH [of "reqs @ [SyncConfigMap s namespace]"] obtain new where
      "snd (syncConfigMaps env namespace ss (reqs @ [SyncConfigMap s namespace])) =
         (reqs @ [SyncConfigMap s namespace]) @ new" and "\<forall>r \<in> set new. is_Sync r"
      by blast
    with None show ?thesis by (intro exI [of _ "SyncConfigMap s namespace # new"]) simp
  next
    case (Some err)
    then show ?thesis by (intro exI [of _ "[SyncConfigMap s namespace]"]) simp
  qed
qed

lemma syncSecrets_fails_local:
  assumes "s \<in> set ss"
    and "\<forall>new. (\<forall>r \<in> set new. is_Sync r) \<and> length new < length ss \<longrightarrow>
               syncSecret env (reqs @ new) s namespace \<noteq> None"
  shows "fst (syncSecrets env namespace ss reqs) \<noteq> None"
  using assms
proof (induction ss arbitrary: reqs)
  case Nil
  then show ?case by simp
next
  case (Cons a ss)
  show ?case
  proof (cases "syncSecret env reqs a namespace")
    case (Some err)
    then show ?thesis by simp
  next
    case None
    from Cons.prems(2) [rule_format, of "[]"] have "syncSecret env reqs s namespace \<noteq> None"
      by simp
    with None have "a \<noteq> s" by auto
    with Cons.prems(1) have in_rest: "s \<in> set ss" by simp
    have "\<forall>new. (\<forall>r \<in> set new. is_Sync r) \<and> length new < length ss \<longrightarrow>
                syncSecret env ((reqs @ [SyncSecret a namespace]) @ new) s namespace \<noteq> None"
    proof (intro allI impI)
      fix new :: "('a, 'b, 'c) Pod request list"
      assume n: "(\<forall>r \<in> set new. is_Sync r) \<and> length new < length ss"
      from Cons.prems(2) [rule_format, of "SyncSecret a namespace # new"] n
      show "syncSecret env ((reqs @ [SyncSecret a namespace]) @ new) s namespace \<noteq> None"
        by simp
    qed
    from Cons.IH [OF in_rest this] None show ?thesis by simp
  qed
qed

lemma syncConfigMaps_fails_local:
  assumes "s \<in> set ss"
    and "\<forall>new. (\<forall>r \<in> set new. is_Sync r) \<and> length new < length ss \<longrightarrow>
               syncConfigMap env (reqs @ new) s namespace \<noteq> None"
  shows "fst (syncConfigMaps env namespace ss reqs) \<noteq> None"
  using assms
proof (induction ss arbitrary: reqs)
  case Nil
  then show ?case by simp
next
  case (Cons a ss)
  show ?case
  proof (cases "syncConfigMap env reqs a namespace")
    case (Some err)
    then show ?thesis by simp
  next
    case None
    from Cons.prems(2) [rule_format, of "[]"] have "syncConfigMap env reqs s namespace \<noteq> None"
      by simp
    with None have "a \<noteq> s" by auto
    with Cons.prems(1) have in_rest: "s \<in> set ss" by simp
    have "\<forall>new. (\<forall>r \<in> set new. is_Sync r) \<and> length new < length ss \<longrightarrow>
                syncConfigMap env ((reqs @ [SyncConfigMap a namespace]) @ new) s namespace \<noteq> None"
    proof (intro allI impI)
      fix new :: "('a, 'b, 'c) Pod request list"
      assume n: "(\<forall>r \<in> set new. is_Sync r) \<and> length new < length ss"
      from Cons.prems(2) [rule_format, of "SyncConfigMap a namespace # new"] n
      show "syncConfigMap env ((reqs @ [SyncConfigMap a namespace]) @ new) s namespace \<noteq> None"
        by simp
    qed
    from Cons.IH [OF in_rest this] None show ?thesis by simp
  qed
qed

lemma syncSecrets_all_synced:
  "fst (syncSecrets env namespace ss reqs) = None \<Longrightarrow>
   \<exists>new. snd (syncSecrets env namespace ss reqs) = reqs @ new \<and> (\<forall>r \<in> set new. is_Sync r) \<and>
         length new = length ss"
proof (induction ss arbitrary: reqs)
  case Nil
  then show ?case by simp
next
  case (Cons a ss)
  from Cons.prems have n: "syncSecret env reqs a namespace = None"
    by (cases "syncSecret env reqs a namespace") auto
  with Cons.prems have "fst (syncSecrets env namespace ss (reqs @ [SyncSecret a namespace])) = None"
    by simp
  from Cons.IH [OF this] obtain new where
    "snd (syncSecrets env namespace ss (reqs @ [SyncSecret a namespace])) =
       (reqs @ [SyncSecret a namespace]) @ new" "\<forall>r \<in> set new. is_Sync r" "length new = length ss"
    by blast
  with n show ?case by (intro exI [of _ "SyncSecret a namespace # new"]) simp
qed

lemma syncCondition_requests:
  "\<exists>new. snd (syncCondition env secrets configMaps namespace reqs) = reqs @ new \<and>
         (\<forall>r \<in> set new. is_Sync r)"
proof -
  obtain r1 reqs1 where s1: "syncSecrets env namespace secrets reqs = (r1, reqs1)"
    by (cases "syncSecrets env namespace secrets reqs")
  from syncSecrets_requests [of env namespace secrets reqs] s1 obtain new1 where
    n1: "reqs1 = reqs @ new1" "\<forall>r \<in> set new1. is_Sync r" by auto
  obtain r2 reqs2 where s2: "syncConfigMaps env namespace configMaps reqs1 = (r2, reqs2)"
    by (cases "syncConfigMaps env namespace configMaps reqs1")
  from syncConfigMaps_requests [of env namespace configMaps reqs1] s2 obtain new2 where
    n2: "reqs2 = reqs1 @ new2" "\<forall>r \<in> set new2. is_Sync r" by auto
  show ?thesis
  proof (cases r1)
    case (Some e)
    with s1 n1 show ?thesis by (simp add: syncCondition_def)
  next
    case None
    with s1 s2 n1 n2 show ?thesis
      by (cases r2) (auto simp: syncCondition_def intro: exI [of _ "new1 @ new2"])
  qed
qed

lemma syncCondition_answers:
  "fst (syncCondition env secrets configMaps namespace reqs) = (True, None) \<or>
   (\<exists>err. fst (syncCondition env secrets configMaps namespace reqs) = (False, Some err))"
  by (auto simp: syncCondition_def split: prod.splits option.splits)

lemma syncCondition_fails_local:
  assumes "(\<exists>s \<in> set secrets. \<forall>new. (\<forall>r \<in> set new. is_Sync r) \<and>
                length new < length secrets + length configMaps \<longrightarrow>
                syncSecret env (reqs @ new) s namespace \<noteq> None) \<or>
           (\<exists>c \<in> set configMaps. \<forall>new. (\<forall>r \<in> set new. is_Sync r) \<and>
                length new < length secrets + length configMaps \<longrightarrow>
                syncConfigMap env (reqs @ new) c namespace \<noteq> None)"
  shows "fst (syncCondition env secrets configMaps namespace reqs) \<noteq> (True, None)"
proof (cases "fst (syncSecrets env namespace secrets reqs)")
  case (Some err)
  then show ?thesis
    by (cases "syncSecrets env namespace secrets reqs") (simp add: syncCondition_def)
next
  case None
  from syncSecrets_all_synced [OF None] obtain new1 where
    n1: "snd (syncSecrets env namespace secrets reqs) = reqs @ new1" "\<forall>r \<in> set new1. is_Sync r"
        "length new1 = length secrets"
    by blast
  have no_secret: "\<not> (\<exists>s \<in> set secrets. \<forall>new. (\<forall>r \<in> set new. is_Sync r) \<and>
                length new < length secrets + length configMaps \<longrightarrow>
                syncSecret env (reqs @ new) s namespace \<noteq> None)"
  proof
    assume "\<exists>s \<in> set secrets. \<forall>new. (\<forall>r \<in> set new. is_Sync r) \<and>
                length new < length secrets + length configMaps \<longrightarrow>
                syncSecret env (reqs @ new) s namespace \<noteq> None"
    then obtain s where "s \<in> set secrets"
      "\<forall>new. (\<forall>r \<in> set new. is_Sync r) \<and> length new < length secrets \<longrightarrow>
             syncSecret env (reqs @ new) s namespace \<noteq> None"
      by fastforce
    from syncSecrets_fails_local [OF this] None show False by simp
  qed
  with assms obtain c where c: "c \<in> set configMaps"
    "\<forall>new. (\<forall>r \<in> set new. is_Sync r) \<and> length new < length secrets + length configMaps \<longrightarrow>
           syncConfigMap env (reqs @ new) c namespace \<noteq> None"
    by blast
  have "\<forall>new. (\<forall>r \<in> set new. is_Sync r) \<and> length new < length configMaps \<longrightarrow>
              syncConfigMap env ((reqs @ new1) @ new) c namespace \<noteq> None"
  proof (intro allI impI)
    fix new :: "('a, 'b, 'c) Pod request list"
    assume "(\<forall>r \<in> set new. is_Sync r) \<and> length new < length configMaps"
    with c(2) [rule_format, of "new1 @ new"] n1
    show "syncConfigMap env ((reqs @ new1) @ new) c namespace \<noteq> None"
      by auto
  qed
  from syncConfigMaps_fails_local [OF c(1) this]
  have "fst (syncConfigMaps env namespace configMaps (reqs @ new1)) \<noteq> None" .
  with None n1(1) show ?thesis
    by (cases "syncSecrets env namespace secrets reqs";
        cases "syncConfigMaps env namespace configMaps (reqs @ new1)")
       (auto simp: syncCondition_def)
qed

lemma PollImmediateUntil_error:
  "fst (condition s) = (b, Some err) \<Longrightarrow>
   PollImmediateUntil condition ticks s = (Some err, snd (condition s))"
  by (cases "condition s") (auto simp: PollImmediateUntil_def split: bool.splits)

lemma PollImmediateUntil_done:
  "fst (condition s) = (True, None) \<Longrightarrow>
   PollImmediateUntil condition ticks s = (None, snd (condition s))"
  by (cases "condition s") (auto simp: PollImmediateUntil_def split: bool.splits)

text \<open>
  Claim C2. If some Secret or some ConfigMap of the pod's dependency set cannot be synced
  while the call runs, then \<open>CreatePod\<close> returns an error, whatever the deadline, and the
  only requests it has sent are sync requests: no pod went to the down cluster's
  \<open>Create\<close>, and none to the process manager. "Cannot be synced" asks only this: the
  dependency's sync call answers with an error at every moment the call can reach,
  that is after the requests sent before the call and fewer sync requests than the pod
  has dependencies. What happens at any later moment does not matter. The same holds
  whenever the pass over the dependencies does not end with all of them synced.
\<close>

theorem CreatePod_dependency_atomicity:
  assumes "(\<exists>s \<in> set (getSecrets env pod).
              \<forall>new. (\<forall>r \<in> set new. is_Sync r) \<and>
                    length new < length (getSecrets env pod) + length (getConfigMaps env pod) \<longrightarrow>
                    syncSecret env (reqs @ new) s (Namespace (ObjectMeta pod)) \<noteq> None) \<or>
           (\<exists>c \<in> set (getConfigMaps env pod).
              \<forall>new. (\<forall>r \<in> set new. is_Sync r) \<and>
                    length new < length (getSecrets env pod) + length (getConfigMaps env pod) \<longrightarrow>
                    syncConfigMap env (reqs @ new) c (Namespace (ObjectMeta pod)) \<noteq> None) \<or>
           fst (syncCondition env (getSecrets env pod) (getConfigMaps env pod)
                  (Namespace (ObjectMeta pod)) reqs) \<noteq> (True, None)"
  shows "fst (CreatePod env ticks reqs pod) \<noteq> None \<and>
         (\<exists>new. snd (CreatePod env ticks reqs pod) = reqs @ new \<and> (\<forall>r \<in> set new. is_Sync r))"
proof -
  let ?cond = "syncCondition env (getSecrets env pod) (getConfigMaps env pod) (Namespace (ObjectMeta pod))"
  have "fst (?cond reqs) \<noteq> (True, None)"
  proof (cases "fst (?cond reqs) \<noteq> (True, None)")
    case True
    then show ?thesis .
  next
    case False
    with assms have "(\<exists>s \<in> set (getSecrets env pod).
              \<forall>new. (\<forall>r \<in> set new. is_Sync r) \<and>
                    length new < length (getSecrets env pod) + length (getConfigMaps env pod) \<longrightarrow>
                    syncSecret env (reqs @ new) s (Namespace (ObjectMeta pod)) \<noteq> None) \<or>
           (\<exists>c \<in> set (getConfigMaps env pod).
              \<forall>new. (\<forall>r \<in> set new. is_Sync r) \<and>
                    length new < length (getSecrets env pod) + length (getConfigMaps env pod) \<longrightarrow>
                    syncConfigMap env (reqs @ new) c (Namespace (ObjectMeta pod)) \<noteq> None)"
      by blast
    from syncCondition_fails_local [OF this] show ?thesis .
  qed
  with syncCondition_answers [of env "getSecrets env pod" "getConfigMaps env pod"
      "Namespace (ObjectMeta pod)" reqs]
  obtain err where e: "fst (?cond reqs) = (False, Some err)" by blast
  from PollImmediateUntil_error [of ?cond, OF e]
  have p: "PollImmediateUntil ?cond ticks reqs = (Some err, snd (?cond reqs))" .
  then have c: "CreatePod env ticks reqs pod = (Some err, snd (?cond reqs))"
    by (simp add: CreatePod_def)
  from syncCondition_requests [of env "getSecrets env pod" "getConfigMaps env pod"
      "Namespace (ObjectMeta pod)" reqs] c
  show ?thesis by simp
qed


theorem CreatePod_dependency_atomicity_witness:
  "fst (CreatePod example_cluster 100000 [] example_pod) \<noteq> None \<and>
   (\<exists>new. snd (CreatePod example_cluster 100000 [] example_pod) = [] @ new \<and>
          (\<forall>r \<in> set new. is_Sync r)) \<and>
   syncSecret example_cluster (replicate 1000 (SyncSecret ''missing'' ''default'')) ''missing'' ''default'' = None"
proof -
  have "''missing'' \<in> set (getSecrets example_cluster example_pod)"
    by (simp add: example_cluster_def example_pod_def)
  moreover have "\<forall>new. (\<forall>r \<in> set new. is_Sync r) \<and>
        length new < length (getSecrets example_cluster example_pod) +
                     length (getConfigMaps example_cluster example_pod) \<longrightarrow>
        syncSecret example_cluster ([] @ new) ''missing'' (Namespace (ObjectMeta example_pod)) \<noteq> None"
    by (simp add: example_cluster_def example_pod_def)
  ultimately have "(\<exists>s \<in> set (getSecrets example_cluster example_pod).
              \<forall>new. (\<forall>r \<in> set new. is_Sync r) \<and>
                    length new < length (getSecrets example_cluster example_pod) +
                                 length (getConfigMaps example_cluster example_pod) \<longrightarrow>
                    syncSecret example_cluster ([] @ new) s (Namespace (ObjectMeta example_pod)) \<noteq> None) \<or>
           (\<exists>c \<in> set (getConfigMaps example_cluster example_pod).
              \<forall>new. (\<forall>r \<in> set new. is_Sync r) \<and>
                    length new < length (getSecrets example_cluster example_pod) +
                                 length (getConfigMaps example_cluster example_pod) \<longrightarrow>
                    syncConfigMap example_cluster ([] @ new) c (Namespace (ObjectMeta example_pod)) \<noteq> None) \<or>
           fst (syncCondition example_cluster (getSecrets example_cluster example_pod)
                  (getConfigMaps example_cluster example_pod)
                  (Namespace (ObjectMeta example_pod)) []) \<noteq> (True, None)"
    by blast
  from CreatePod_dependency_atomicity [OF this, of 100000]
  show ?thesis
    by (simp add: example_cluster_def)
qed

subsection \<open>GetPod, UpdatePod and GetContainerLogs\<close>

text \<open>
  Claim C3. For a pod that the up-cluster cache holds, \<open>GetPod\<close> returns the up-cluster
  pod with its status replaced by the down-cluster pod's status and every other field
  as it was, when the down-cluster lister holds the pod; when the lister does not, it
  returns an error.
\<close>

theorem GetPod_status_merge:
  assumes "up (namespace, name) = Some u"
  shows "(\<forall>d. down (namespace, name) = Some d \<longrightarrow>
            fst (GetPod up down namespace name) = Inr (u\<lparr>Status := Status d\<rparr>)) \<and>
         (down (namespace, name) = None \<longrightarrow>
            (\<exists>err. fst (GetPod up down namespace name) = Inl err))"
  using assms by (simp add: GetPod_def ResourceManager_GetPod_def downPodLister_Get_def Let_def)

theorem GetPod_status_merge_witness:
  "fst (GetPod [(''default'', ''web'') \<mapsto> example_pod] [(''default'', ''web'') \<mapsto> example_down_pod]
          ''default'' ''web'') = Inr (example_pod\<lparr>Status := ''Running''\<rparr>) \<and>
   (\<exists>err. fst (GetPod [(''default'', ''web'') \<mapsto> example_pod] Map.empty ''default'' ''web'') = Inl err)"
proof -
  have up: "[(''default'', ''web'') \<mapsto> example_pod] (''default'', ''web'') = Some example_pod"
    by simp
  from GetPod_status_merge [where up = "[(''default'', ''web'') \<mapsto> example_pod]" and
      namespace = "''default''" and name = "''web''" and u = example_pod and
      down = "[(''default'', ''web'') \<mapsto> example_down_pod]"] up
  have "fst (GetPod [(''default'', ''web'') \<mapsto> example_pod]
               [(''default'', ''web'') \<mapsto> example_down_pod] ''default'' ''web'') =
        Inr (example_pod\<lparr>Status := Status example_down_pod\<rparr>)"
    by simp
  moreover from GetPod_status_merge [where up = "[(''default'', ''web'') \<mapsto> example_pod]" and
      namespace = "''default''" and name = "''web''" and u = example_pod and down = Map.empty] up
  have "\<exists>err. fst (GetPod [(''default'', ''web'') \<mapsto> example_pod] Map.empty ''default'' ''web'') = Inl err"
    by simp
  ultimately show ?thesis by (simp add: example_down_pod_def)
qed

text \<open>
  Claim C9. \<open>UpdatePod\<close> returns \<open>nil\<close> for every pod and every answer of the down
  cluster's \<open>Update\<close>; when \<open>Update\<close> fails, the error is logged and set as the span's
  status, and that is all that is done with it.
\<close>

theorem UpdatePod_returns_nil:
  "fst (UpdatePod env span reqs pod) = None \<and>
   (\<forall>e. down_Update env reqs (trimPod env pod (NodeName env)) = Some e \<longrightarrow>
      logged (fst (snd (UpdatePod env span reqs pod))) = logged span @ [LogError (Some e)] \<and>
      span_status (fst (snd (UpdatePod env span reqs pod))) = Some e)"
  by (simp add: UpdatePod_def Let_def split: option.splits)

theorem UpdatePod_returns_nil_witness:
  "down_Update example_cluster [] (trimPod example_cluster example_pod (NodeName example_cluster)) =
     Some (Errorf ''the object has been modified'') \<and>
   fst (UpdatePod example_cluster example_span [] example_pod) = None \<and>
   logged (fst (snd (UpdatePod example_cluster example_span [] example_pod))) =
     [LogError (Some (Errorf ''the object has been modified''))] \<and>
   span_status (fst (snd (UpdatePod example_cluster example_span [] example_pod))) =
     Some (Errorf ''the object has been modified'')"
proof -
  have u: "down_Update example_cluster []
             (trimPod example_cluster example_pod (NodeName example_cluster)) =
           Some (Errorf ''the object has been modified'')"
    by (simp add: example_cluster_def)
  from UpdatePod_returns_nil [of example_cluster example_span "[]" example_pod] u
  show ?thesis by (simp add: example_span_def)
qed

text \<open>
  Claim C10. When \<open>opts.SinceTime\<close> is not the zero time or \<open>opts.SinceSeconds\<close> is not
  zero, \<open>GetContainerLogs\<close> stores through a nil pointer and panics; when both are zero
  it reaches the stream call, with both pointers still nil.
\<close>

theorem GetContainerLogs_nil_dereference:
  "(\<not> IsZero (opts_SinceTime opts) \<or> opts_SinceSeconds opts \<noteq> 0 \<longrightarrow>
      GetContainerLogs logs_Stream namespace podName containerName opts = Panics nil_dereference) \<and>
   (IsZero (opts_SinceTime opts) \<and> opts_SinceSeconds opts = 0 \<longrightarrow>
      (\<exists>options. GetContainerLogs logs_Stream namespace podName containerName opts =
                   Returns (logs_Stream namespace podName options) \<and>
                 SinceTime options = None \<and> SinceSeconds options = None))"
  by (auto simp: GetContainerLogs_def store_through_def Let_def intro!: exI)

theorem GetContainerLogs_nil_dereference_witness:
  "GetContainerLogs (\<lambda>namespace podName options. Inr (Container options)) ''default'' ''web'' ''app''
     (example_logopts\<lparr>opts_SinceSeconds := 30\<rparr>) = Panics nil_dereference \<and>
   GetContainerLogs (\<lambda>namespace podName options. Inr (Container options)) ''default'' ''web'' ''app''
     (example_logopts\<lparr>opts_SinceTime := \<lparr>sec = 1600000000, nsec = 0\<rparr>\<rparr>) = Panics nil_dereference \<and>
   GetContainerLogs (\<lambda>namespace podName options. Inr (Container options)) ''default'' ''web'' ''app''
     example_logopts = Returns (Inr ''app'')"
proof -
  let ?logs = "\<lambda>namespace podName options. (Inr (Container options) :: error + string)"
  from GetContainerLogs_nil_dereference
         [of "example_logopts\<lparr>opts_SinceSeconds := 30\<rparr>" ?logs "''default''" "''web''" "''app''"]
  have a: "GetContainerLogs ?logs ''default'' ''web'' ''app''
             (example_logopts\<lparr>opts_SinceSeconds := 30\<rparr>) = Panics nil_dereference"
    by (simp add: example_logopts_def)
  from GetContainerLogs_nil_dereference
         [of "example_logopts\<lparr>opts_SinceTime := \<lparr>sec = 1600000000, nsec = 0\<rparr>\<rparr>" ?logs
             "''default''" "''web''" "''app''"]
  have b: "GetContainerLogs ?logs ''default'' ''web'' ''app''
             (example_logopts\<lparr>opts_SinceTime := \<lparr>sec = 1600000000, nsec = 0\<rparr>\<rparr>) =
           Panics nil_dereference"
    by (simp add: example_logopts_def IsZero_def)
  have c: "GetContainerLogs ?logs ''default'' ''web'' ''app'' example_logopts = Returns (Inr ''app'')"
    by (simp add: GetContainerLogs_def example_logopts_def IsZero_def Let_def)
  from a b c show ?thesis by simp
qed

section \<open>Properties of the image manager\<close>

subsection \<open>PullImage, step by step\<close>

lemma PullImage_deferred_simps [simp]:
  "imageDb (fst (PullImage_deferred name p (m, sys))) = imageDb m"
  "pulling (fst (PullImage_deferred name p (m, sys))) = (pulling m)(name := None)"
  "imagePath (fst (PullImage_deferred name p (m, sys))) = imagePath m"
  "max' (fst (PullImage_deferred name p (m, sys))) = max' m"
  "closed_chans (snd (PullImage_deferred name p (m, sys))) = insert (pull_ch p) (closed_chans sys)"
  "next_chan (snd (PullImage_deferred name p (m, sys))) = next_chan sys"
  "calls (snd (PullImage_deferred name p (m, sys))) =
     calls sys @ (case pull_f p of Some file \<Rightarrow> [FileClose file] | None \<Rightarrow> [])"
  by (simp_all add: PullImage_deferred_def pulling_Delete_def close_chan_def Let_def
        split: option.split)

lemma deleteExistImage_sys [simp]:
  "snd (deleteExistImage env dir sys) = sys\<lparr>calls := calls sys @ [OsRemove dir]\<rparr>"
  by (simp add: deleteExistImage_def Let_def split: option.split)

lemma PullImage_pull_unfold:
  "PullImage_pull env loc p (m, sys) =
     (if time_Nanosecond env = 0
      then (Panics ''invalid argument to Intn'', PullImage_deferred (loc_name loc) p (m, sys))
      else (case os_OpenFile env (pullLogPath env) of
              Some err \<Rightarrow>
                (Returns (Some err),
                 PullImage_deferred (loc_name loc) p
                   (m, sys\<lparr>calls := calls sys @ [OsRemove (loc_imageDir loc), OsOpenFile (pullLogPath env)]\<rparr>))
            | None \<Rightarrow>
                (case cc_Image env (Some (loc_timeout loc)) (loc_destRef loc) (loc_srcRef loc) of
                   Some err \<Rightarrow>
                     (Returns (Some err),
                      PullImage_deferred (loc_name loc) (p\<lparr>pull_f := Some (pullLogPath env)\<rparr>)
                        (m, sys\<lparr>calls := calls sys @
                              [OsRemove (loc_imageDir loc), OsOpenFile (pullLogPath env),
                               CcImage (Some (loc_timeout loc)) (loc_destRef loc) (loc_srcRef loc)]\<rparr>))
                 | None \<Rightarrow>
                     (case db_Put env (loc_name loc) (loc_dest loc) of
                        Some err \<Rightarrow>
                          (Returns (Some err),
                           PullImage_deferred (loc_name loc) (p\<lparr>pull_f := Some (pullLogPath env)\<rparr>)
                             (m, sys\<lparr>calls := calls sys @
                                   [OsRemove (loc_imageDir loc), OsOpenFile (pullLogPath env),
                                    CcImage (Some (loc_timeout loc)) (loc_destRef loc) (loc_srcRef loc)]\<rparr>))
                      | None \<Rightarrow>
                          (Returns None,
                           PullImage_deferred (loc_name loc) (p\<lparr>pull_f := Some (pullLogPath env)\<rparr>)
                             (m\<lparr>imageDb := (imageDb m)(loc_name loc \<mapsto> loc_dest loc)\<rparr>,
                              sys\<lparr>calls := calls sys @
                                   [OsRemove (loc_imageDir loc), OsOpenFile (pullLogPath env),
                                    CcImage (Some (loc_timeout loc)) (loc_destRef loc) (loc_srcRef loc)]\<rparr>))))))"
  by (simp add: PullImage_pull_def pullLogPath_def Let_def case_prod_beta split: option.split)




lemma PullImage_setup_locals:
  assumes "PullImage_setup env m sys opts = (Inr loc, sys1)"
  shows "loc_name loc = SrcImage opts" "loc_timeout loc = effectiveTimeout m opts"
    "imageDestDir env (imagePath m) (SrcImage opts) = Inr (loc_dest loc, loc_imageDir loc)"
    "alltransports_ParseImageName env (SrcImage opts) = Inr (loc_srcRef loc)"
    "alltransports_ParseImageName env (loc_dest loc) = Inr (loc_destRef loc)"
  using assms unfolding PullImage_setup_def Let_def
  by (auto split: sum.splits prod.splits option.splits)

lemma PullImage_cases:
  assumes "PullImage env (m, sys) opts = (out, m', sys')"
  obtains
    (setup_error) err where "PullImage_setup env m sys opts = (Inl err, sys')"
      "out = Returns (Some err)" "m' = m"
  | (cache_hit) loc where "PullImage_setup env m sys opts = (Inr loc, sys')"
      "imageDb m (SrcImage opts) \<noteq> None" "out = Returns None" "m' = m"
  | (waits) loc where "PullImage_setup env m sys opts = (Inr loc, sys')"
      "imageDb m (SrcImage opts) = None" "pulling m (SrcImage opts) \<noteq> None" "out = Blocks" "m' = m"
  | (pulls) loc sys1 where "PullImage_setup env m sys opts = (Inr loc, sys1)"
      "imageDb m (SrcImage opts) = None" "pulling m (SrcImage opts) = None"
      "PullImage_pull env loc (NewImagePulling (SrcImage opts) (next_chan sys1))
         (m\<lparr>pulling := (pulling m)(SrcImage opts \<mapsto> NewImagePulling (SrcImage opts) (next_chan sys1))\<rparr>,
          sys1\<lparr>next_chan := Suc (next_chan sys1)\<rparr>) = (out, m', sys')"
proof -
  obtain r sys1 where s: "PullImage_setup env m sys opts = (r, sys1)"
    by (cases "PullImage_setup env m sys opts")
  show thesis
  proof (cases r)
    case (Inl err)
    with s assms show thesis by (intro setup_error [of err]) (simp_all add: PullImage_def)
  next
    case (Inr loc)
    with s have n: "loc_name loc = SrcImage opts" by (simp add: PullImage_setup_locals(1))
    show thesis
    proof (cases "imageDb m (SrcImage opts)")
      case (Some v)
      with s Inr n assms show thesis
        by (intro cache_hit [of loc]) (simp_all add: PullImage_def imageDb_Has_def)
    next
      case None
      note db = this
      show thesis
      proof (cases "pulling m (SrcImage opts)")
        case (Some pull)
        with s Inr n db assms show thesis
          by (intro waits [of loc]) (simp_all add: PullImage_def imageDb_Has_def pulling_Load_def)
      next
        case None
        with s Inr n db assms show thesis
          by (intro pulls [of loc sys1])
            (simp_all add: PullImage_def imageDb_Has_def pulling_Load_def PullImage_store_def
               pulling_LoadOrStore_def Let_def)
      qed
    qed
  qed
qed

subsection \<open>The timeout and the swallowed error\<close>





text \<open>
  Claim C8 at a failing input: the destination file is there and cannot be removed.
  \<open>deleteExistImage\<close> reports the error, and \<open>PullImage\<close> returns \<open>nil\<close>.
\<close>

theorem PullImage_remove_error_swallowed:
  "fst (deleteExistImage (example_env\<lparr>os_Remove := (\<lambda>_. Some (Errorf ''permission denied''))\<rparr>)
          ''/work/images/registry-example-v1.tar.gz'' example_sys) =
     Some (Errorf ''permission denied'') \<and>
   fst (PullImage (example_env\<lparr>os_Remove := (\<lambda>_. Some (Errorf ''permission denied''))\<rparr>)
          (example_manager, example_sys) example_opts) = Returns None"
  by code_simp

subsection \<open>The record of a pulled image\<close>



lemma PullImage_pull_error:
  assumes "PullImage_pull env loc p (m, sys) = (Returns (Some err), m', sys')"
  shows "imageDb m' = imageDb m"
proof -
  from assms have "fst (PullImage_pull env loc p (m, sys)) = Returns (Some err)"
    and "imageDb m' = imageDb (fst (snd (PullImage_pull env loc p (m, sys))))"
    by simp_all
  then show ?thesis
    by (auto simp: PullImage_pull_unfold split: if_splits option.splits)
qed

lemma PullImage_pull_session:
  assumes "PullImage_pull env loc p (m, sys) = (out, m', sys')"
  shows "pulling m' = (pulling m)(loc_name loc := None)" "imagePath m' = imagePath m"
    "max' m' = max' m"
proof -
  from assms have "m' = fst (snd (PullImage_pull env loc p (m, sys)))"
    by simp
  then show "pulling m' = (pulling m)(loc_name loc := None)" "imagePath m' = imagePath m"
    "max' m' = max' m"
    by (auto simp: PullImage_pull_unfold split: if_splits option.splits)
qed




subsection \<open>Failed pulls\<close>



lemma PullImage_error_state_unchanged:
  assumes "PullImage env (m, sys) opts = (Returns (Some err), m', sys')"
  shows "imageDb m' = imageDb m \<and> pulling m' = pulling m"
  using assms
proof (cases rule: PullImage_cases)
  case (setup_error err')
  then show ?thesis by simp
next
  case (cache_hit loc)
  then show ?thesis by simp
next
  case (waits loc)
  then show ?thesis by simp
next
  case (pulls loc sys1)
  from PullImage_setup_locals(1) [OF pulls(1)] have n: "loc_name loc = SrcImage opts" .
  from PullImage_pull_error [OF pulls(4)] have db: "imageDb m' = imageDb m" by simp
  from PullImage_pull_session(1) [OF pulls(4)] n pulls(3)
  have "pulling m' = pulling m" by auto
  with db show ?thesis by simp
qed

subsection \<open>Goroutines\<close>

text \<open>
  A goroutine that runs alone does what \<open>PullImage\<close> does: five steps take it to the end
  with the same result and the same state, and a call that \<open>PullImage\<close> leaves waiting is
  a goroutine at the receive from the session's channel.
\<close>

lemma goroutine_alone:
  assumes "PullImage env (m, sys) opts = (out, m', sys')" and "out \<noteq> Blocks"
  shows "run [0, 0, 0, 0, 0]
           \<lparr>manager = m, world = sys, goroutines = [\<lparr>g_env = env, g_opts = opts, g_pc = AtStart\<rparr>]\<rparr> =
         \<lparr>manager = m', world = sys',
          goroutines = [\<lparr>g_env = env, g_opts = opts, g_pc = Finished out\<rparr>]\<rparr>"
  using assms(1)
proof (cases rule: PullImage_cases)
  case (setup_error err)
  then show ?thesis
    by (simp add: machine_step_def goroutine_step_def)
next
  case (cache_hit loc)
  from PullImage_setup_locals(1) [OF cache_hit(1)] cache_hit show ?thesis
    by (simp add: machine_step_def goroutine_step_def imageDb_Has_def)
next
  case (waits loc)
  with assms(2) show ?thesis by simp
next
  case (pulls loc sys1)
  from PullImage_setup_locals(1) [OF pulls(1)] pulls show ?thesis
    by (simp add: machine_step_def goroutine_step_def imageDb_Has_def pulling_Load_def
          PullImage_store_def pulling_LoadOrStore_def Let_def)
qed

lemma goroutine_waits:
  assumes "PullImage env (m, sys) opts = (Blocks, m', sys')"
  shows "\<exists>loc pull.
           run [0, 0, 0]
             \<lparr>manager = m, world = sys, goroutines = [\<lparr>g_env = env, g_opts = opts, g_pc = AtStart\<rparr>]\<rparr> =
           \<lparr>manager = m', world = sys',
            goroutines = [\<lparr>g_env = env, g_opts = opts, g_pc = AtReceive loc pull\<rparr>]\<rparr> \<and>
           pulling m (SrcImage opts) = Some pull"
  using assms
proof (cases rule: PullImage_cases)
  case (setup_error err)
  then show ?thesis by simp
next
  case (cache_hit loc)
  then show ?thesis by simp
next
  case (waits loc)
  from waits(3) obtain pull where "pulling m (SrcImage opts) = Some pull" by auto
  with PullImage_setup_locals(1) [OF waits(1)] waits show ?thesis
    by (simp add: machine_step_def goroutine_step_def imageDb_Has_def pulling_Load_def)
next
  case (pulls loc sys1)
  from pulls(4) have "fst (PullImage_pull env loc (NewImagePulling (SrcImage opts) (next_chan sys1))
         (m\<lparr>pulling := (pulling m)(SrcImage opts \<mapsto> NewImagePulling (SrcImage opts) (next_chan sys1))\<rparr>,
          sys1\<lparr>next_chan := Suc (next_chan sys1)\<rparr>)) = Blocks" by simp
  then show ?thesis
    by (simp add: PullImage_pull_unfold split: if_splits option.splits)
qed


text \<open>
  When the first goroutine has stored its session before the second looks, the second
  waits for it and returns from the cache: one copy.
\<close>

lemma PullImage_waiter_one_copy:
  "map g_pc (goroutines (run waiting_schedule example_machine)) =
     [Finished (Returns None), Finished (Returns None)] \<and>
   copies (world (run waiting_schedule example_machine)) = 1"
  by code_simp

text \<open>
  Claim C1 at a failing input: two goroutines pull the same reference and take turns.
  Both find no session, both go on after \<open>LoadOrStore\<close> (after eight steps they pull under
  two sessions, of which the map holds the first), both copy the image, and both
  return \<open>nil\<close>: two network copies.
\<close>

theorem PullImage_race_two_copies:
  "map (\<lambda>g. session_of (g_pc g)) (goroutines (run (take 8 racing_schedule) example_machine)) =
     [Some 0, Some 1] \<and>
   map_option pull_ch
     (pulling (manager (run (take 8 racing_schedule) example_machine)) ''docker://registry/example:v1'') =
     Some 0 \<and>
   map g_pc (goroutines (run racing_schedule example_machine)) =
     [Finished (Returns None), Finished (Returns None)] \<and>
   copies (world (run racing_schedule example_machine)) = 2"
  by code_simp

subsection \<open>A call that fails\<close>










text \<open>
  The calls of a run of the machine are such calls, and so is a call that runs alone.
\<close>

lemma machine_step_goroutines:
  "length (goroutines (machine_step j st)) = length (goroutines st)"
  "i < length (goroutines st) \<Longrightarrow>
   goroutines (machine_step j st) ! i =
     (if j = i then fst (goroutine_step (goroutines st ! i) (manager st, world st))
      else goroutines st ! i)"
  "j < length (goroutines st) \<Longrightarrow>
   (manager (machine_step j st), world (machine_step j st)) =
     snd (goroutine_step (goroutines st ! j) (manager st, world st))"
  by (auto simp: machine_step_def split: prod.splits)

lemma run_is_call:
  assumes "i < length (goroutines st)"
  shows "goroutines (run schedule st) ! i =
           (if call_steps (goroutines st ! i) (worlds_before i schedule st) = []
            then goroutines st ! i
            else fst (snd (last (call_steps (goroutines st ! i) (worlds_before i schedule st)))))"
  using assms
proof (induction schedule arbitrary: st)
  case Nil
  then show ?case by simp
next
  case (Cons j schedule)
  from Cons.prems have len: "i < length (goroutines (machine_step j st))"
    by (simp add: machine_step_goroutines(1))
  note ih = Cons.IH [OF len]
  show ?case
  proof (cases "j = i")
    case False
    with ih machine_step_goroutines(2) [OF Cons.prems, of j] show ?thesis by simp
  next
    case True
    obtain g' w' where st: "goroutine_step (goroutines st ! i) (manager st, world st) = (g', w')"
      by (cases "goroutine_step (goroutines st ! i) (manager st, world st)")
    with True machine_step_goroutines(2) [OF Cons.prems, of j]
    have g: "goroutines (machine_step j st) ! i = g'" by simp
    with ih True st show ?thesis by simp
  qed
qed

lemma PullImage_error_is_call:
  assumes "PullImage env (m, sys) opts = (Returns (Some err), m', sys')"
  shows "\<exists>ws w. last (call_steps \<lparr>g_env = env, g_opts = opts, g_pc = AtStart\<rparr> ((m, sys) # ws)) =
                  (w, \<lparr>g_env = env, g_opts = opts, g_pc = Finished (Returns (Some err))\<rparr>, m', sys')"
  using assms
proof (cases rule: PullImage_cases)
  case (setup_error err')
  then show ?thesis
    by (intro exI [of _ "[]"] exI [of _ "(m, sys)"]) (simp add: goroutine_step_def)
next
  case (cache_hit loc)
  then show ?thesis by simp
next
  case (waits loc)
  then show ?thesis by simp
next
  case (pulls loc sys1)
  let ?p = "NewImagePulling (SrcImage opts) (next_chan sys1)"
  let ?w = "(m\<lparr>pulling := (pulling m)(SrcImage opts \<mapsto> ?p)\<rparr>, sys1\<lparr>next_chan := Suc (next_chan sys1)\<rparr>)"
  from PullImage_setup_locals(1) [OF pulls(1)] pulls show ?thesis
    by (intro exI [of _ "[(m, sys1), (m, sys1), (m, sys1), ?w]"] exI [of _ ?w])
       (simp add: goroutine_step_def imageDb_Has_def pulling_Load_def
          PullImage_store_def pulling_LoadOrStore_def Let_def)
qed




subsection \<open>UnzipImage\<close>

lemma UnzipImage_layers_never_succeeds:
  "\<exists>l \<in> set layers. MediaType l \<noteq> MediaTypeDockerSchema2LayerGzip \<Longrightarrow>
   fst (UnzipImage_layers env image' imageDir workdir layers sys) \<noteq> Returns None"
proof (induction layers arbitrary: sys)
  case Nil
  then show ?case by simp
next
  case (Cons layer layers)
  show ?case
  proof (cases "MediaType layer = MediaTypeDockerSchema2LayerGzip")
    case True
    with Cons.prems have "\<exists>l \<in> set layers. MediaType l \<noteq> MediaTypeDockerSchema2LayerGzip"
      by auto
    from Cons.IH [OF this] True show ?thesis
      by (simp add: Let_def split: option.splits)
  next
    case False
    then show ?thesis by (simp split: option.splits)
  qed
qed

lemma UnzipImage_layers_unpacked:
  assumes "\<forall>l \<in> set pre. MediaType l = MediaTypeDockerSchema2LayerGzip \<and>
             (\<exists>file. getLayerFilePath imageDir (Digest l) = Some file \<and>
                     UnTar env file (containerWorkDir workdir) = None)"
  shows "UnzipImage_layers env image' imageDir workdir (pre @ rest) sys =
         UnzipImage_layers env image' imageDir workdir rest
           (sys\<lparr>calls := calls sys @
                  map (\<lambda>l. UnTarCall (the (getLayerFilePath imageDir (Digest l)))
                             (containerWorkDir workdir)) pre\<rparr>)"
  using assms
proof (induction pre arbitrary: sys)
  case Nil
  then show ?case by simp
next
  case (Cons l pre)
  from Cons.prems obtain path where
    l: "MediaType l = MediaTypeDockerSchema2LayerGzip"
       "getLayerFilePath imageDir (Digest l) = Some path"
       "UnTar env path (containerWorkDir workdir) = None"
    by auto
  from Cons.prems have
    "\<forall>l \<in> set pre. MediaType l = MediaTypeDockerSchema2LayerGzip \<and>
       (\<exists>file. getLayerFilePath imageDir (Digest l) = Some file \<and>
               UnTar env file (containerWorkDir workdir) = None)"
    by simp
  from Cons.IH [OF this] l show ?case by (simp add: Let_def)
qed

lemma UnzipImage_success:
  assumes "fst (UnzipImage env m sys image' workdir) = Returns None"
  shows "\<exists>content manifest sys2.
           ioutil_ReadFile env (manifestDir (getImageWorkDir workdir)) = Inr content \<and>
           json_Unmarshal env content = Inr manifest \<and>
           fst (UnzipImage_layers env image' (getImageWorkDir workdir) workdir (Layers manifest) sys2) =
             Returns None"
  using assms unfolding UnzipImage_def Let_def
  by (auto split: option.splits sum.splits prod.splits)

text \<open>
  Claim C7. When the manifest that \<open>UnzipImage\<close> reads has a layer whose media type is
  not the gzip-compressed Docker schema-2 layer type, the extraction never returns
  success. When it gets as far as the first such layer (the steps before the loop and
  the unpacking of the layers before it succeed), it returns the error that names the
  image, the layer's encoded digest and the media type, having unpacked the layers
  before it and no other: the layer is not skipped, and no later layer is unpacked.
\<close>

theorem UnzipImage_unsupported_layer:
  assumes "ioutil_ReadFile env (manifestDir (getImageWorkDir workdir)) = Inr content"
    and "json_Unmarshal env content = Inr manifest"
    and "Layers manifest = pre @ layer # post"
    and "\<forall>l \<in> set pre. MediaType l = MediaTypeDockerSchema2LayerGzip"
    and "MediaType layer \<noteq> MediaTypeDockerSchema2LayerGzip"
  shows "fst (UnzipImage env m sys image' workdir) \<noteq> Returns None \<and>
         (signature_DefaultPolicy env = None \<and> signature_NewPolicyContext env = None \<and>
          createDestDir env (getImageWorkDir workdir) sys = (None, sys1) \<and>
          directory_ParseReference env (getImageWorkDir workdir) = Inr destRef \<and>
          imageDb m (dockerImageName env image') = Some imagePath' \<and>
          alltransports_ParseImageName env imagePath' = Inr srcRef \<and>
          cc_Image env None destRef srcRef = None \<and>
          (\<forall>l \<in> set pre. \<exists>file. getLayerFilePath (getImageWorkDir workdir) (Digest l) = Some file \<and>
                                 UnTar env file (containerWorkDir workdir) = None) \<and>
          Digest_Encoded (Digest layer) = Some encoded \<longrightarrow>
          UnzipImage env m sys image' workdir =
            (Returns (Some (Errorf (''unsupport image '' @ image' @ '' layer '' @ encoded @
                                      '' media type:'' @ MediaType layer))),
             sys1\<lparr>calls := calls sys1 @
                    CcImage None destRef srcRef #
                    map (\<lambda>l. UnTarCall (the (getLayerFilePath (getImageWorkDir workdir) (Digest l)))
                               (containerWorkDir workdir)) pre\<rparr>))"
proof (intro conjI impI)
  show "fst (UnzipImage env m sys image' workdir) \<noteq> Returns None"
  proof
    assume "fst (UnzipImage env m sys image' workdir) = Returns None"
    from UnzipImage_success [OF this] assms(1,2) obtain sys2 where
      "fst (UnzipImage_layers env image' (getImageWorkDir workdir) workdir (Layers manifest) sys2) =
         Returns None"
      by auto
    moreover from assms(3,5)
    have "\<exists>l \<in> set (Layers manifest). MediaType l \<noteq> MediaTypeDockerSchema2LayerGzip"
      by auto
    ultimately show False
      using UnzipImage_layers_never_succeeds by blast
  qed
next
  assume r: "signature_DefaultPolicy env = None \<and> signature_NewPolicyContext env = None \<and>
          createDestDir env (getImageWorkDir workdir) sys = (None, sys1) \<and>
          directory_ParseReference env (getImageWorkDir workdir) = Inr destRef \<and>
          imageDb m (dockerImageName env image') = Some imagePath' \<and>
          alltransports_ParseImageName env imagePath' = Inr srcRef \<and>
          cc_Image env None destRef srcRef = None \<and>
          (\<forall>l \<in> set pre. \<exists>file. getLayerFilePath (getImageWorkDir workdir) (Digest l) = Some file \<and>
                                 UnTar env file (containerWorkDir workdir) = None) \<and>
          Digest_Encoded (Digest layer) = Some encoded"
  with assms(1,2) have u: "UnzipImage env m sys image' workdir =
      UnzipImage_layers env image' (getImageWorkDir workdir) workdir (Layers manifest)
        (sys1\<lparr>calls := calls sys1 @ [CcImage None destRef srcRef]\<rparr>)"
    by (simp add: UnzipImage_def Let_def)
  from r assms(4) have
    "\<forall>l \<in> set pre. MediaType l = MediaTypeDockerSchema2LayerGzip \<and>
       (\<exists>file. getLayerFilePath (getImageWorkDir workdir) (Digest l) = Some file \<and>
               UnTar env file (containerWorkDir workdir) = None)"
    by simp
  from UnzipImage_layers_unpacked [OF this] assms(3,5) r u
  show "UnzipImage env m sys image' workdir =
            (Returns (Some (Errorf (''unsupport image '' @ image' @ '' layer '' @ encoded @
                                      '' media type:'' @ MediaType layer))),
             sys1\<lparr>calls := calls sys1 @
                    CcImage None destRef srcRef #
                    map (\<lambda>l. UnTarCall (the (getLayerFilePath (getImageWorkDir workdir) (Digest l)))
                               (containerWorkDir workdir)) pre\<rparr>)"
    by simp
qed

theorem UnzipImage_unsupported_layer_witness:
  "UnzipImage example_env example_manager_pulled example_sys ''registry/example:v1'' ''/work/c1'' =
     (Returns (Some (Errorf
        ''unsupport image registry/example:v1 layer b2 media type:application/vnd.oci.image.layer.v1.tar+zstd'')),
      example_sys\<lparr>calls :=
        [CcImage None (ImageReference ''dir:/work/c1/image'')
           (ImageReference ''docker-archive:/work/images/registry-example-v1.tar.gz''),
         UnTarCall ''/work/c1/image/a1'' ''/work/c1/container'']\<rparr>)"
proof -
  let ?pre = "[\<lparr>MediaType = MediaTypeDockerSchema2LayerGzip, Digest = ''sha256:a1'', Size = 100\<rparr>]"
  let ?layer = "\<lparr>MediaType = ''application/vnd.oci.image.layer.v1.tar+zstd'', Digest = ''sha256:b2'',
                  Size = 200\<rparr>"
  let ?post = "[\<lparr>MediaType = MediaTypeDockerSchema2LayerGzip, Digest = ''sha256:c3'', Size = 300\<rparr>]"
  have h1: "ioutil_ReadFile example_env (manifestDir (getImageWorkDir ''/work/c1'')) = Inr ''{}''"
    by (simp add: example_env_def)
  have h2: "json_Unmarshal example_env ''{}'' = Inr example_manifest"
    by (simp add: example_env_def)
  have h3: "Layers example_manifest = ?pre @ ?layer # ?post"
    by (simp add: example_manifest_def)
  have h4: "\<forall>l \<in> set ?pre. MediaType l = MediaTypeDockerSchema2LayerGzip"
    by simp
  have h5: "MediaType ?layer \<noteq> MediaTypeDockerSchema2LayerGzip"
    by (simp add: MediaTypeDockerSchema2LayerGzip_def)
  have w: "getImageWorkDir ''/work/c1'' = ''/work/c1/image''"
    by code_simp
  have c: "containerWorkDir ''/work/c1'' = ''/work/c1/container''"
    by code_simp
  have f: "getLayerFilePath ''/work/c1/image'' ''sha256:a1'' = Some ''/work/c1/image/a1''"
    by code_simp
  have e: "Digest_Encoded ''sha256:b2'' = Some ''b2''"
    by code_simp
  have r: "signature_DefaultPolicy example_env = None \<and> signature_NewPolicyContext example_env = None \<and>
          createDestDir example_env (getImageWorkDir ''/work/c1'') example_sys = (None, example_sys) \<and>
          directory_ParseReference example_env (getImageWorkDir ''/work/c1'') =
            Inr (ImageReference ''dir:/work/c1/image'') \<and>
          imageDb example_manager_pulled (dockerImageName example_env ''registry/example:v1'') =
            Some ''docker-archive:/work/images/registry-example-v1.tar.gz'' \<and>
          alltransports_ParseImageName example_env ''docker-archive:/work/images/registry-example-v1.tar.gz'' =
            Inr (ImageReference ''docker-archive:/work/images/registry-example-v1.tar.gz'') \<and>
          cc_Image example_env None (ImageReference ''dir:/work/c1/image'')
            (ImageReference ''docker-archive:/work/images/registry-example-v1.tar.gz'') = None \<and>
          (\<forall>l \<in> set ?pre. \<exists>file. getLayerFilePath (getImageWorkDir ''/work/c1'') (Digest l) = Some file \<and>
                                 UnTar example_env file (containerWorkDir ''/work/c1'') = None) \<and>
          Digest_Encoded (Digest ?layer) = Some ''b2''"
    unfolding w c
    by (simp add: f e example_env_def example_manager_pulled_def example_manager_def
          createDestDir_def example_ParseImageName_def example_ListNames_def)
  from UnzipImage_unsupported_layer [OF h1 h2 h3 h4 h5, of example_manager_pulled example_sys
      "''registry/example:v1''" example_sys "ImageReference ''dir:/work/c1/image''"
      "''docker-archive:/work/images/registry-example-v1.tar.gz''"
      "ImageReference ''docker-archive:/work/images/registry-example-v1.tar.gz''" "''b2''"] r
  show ?thesis
    by (simp add: w c f example_sys_def)
qed


end
